theory Spec2Isabelle
  imports Complex_Main "HOL-Library.Monad_Syntax"
begin

section \<open>Python values\<close>

text \<open>
  The payloads handled by the backend are decoded JSON documents and the dictionaries
  built from them. A float is represented by the rational number it denotes (NaN and
  the infinities are outside the model); a dictionary is the list of its items in
  insertion order.
\<close>

datatype pyval =
    PNone
  | PBool bool
  | PInt int
  | PFloat rat
  | PStr string
  | PList "pyval list"
  | PDict "(string \<times> pyval) list"

text \<open>Truth value testing, as performed by \<^verbatim>\<open>if x:\<close>, \<^verbatim>\<open>x or y\<close> and \<^verbatim>\<open>not x\<close>.\<close>

fun truthy :: "pyval \<Rightarrow> bool" where
  "truthy PNone = False"
| "truthy (PBool b) = b"
| "truthy (PInt n) = (n \<noteq> 0)"
| "truthy (PFloat r) = (r \<noteq> 0)"
| "truthy (PStr s) = (s \<noteq> [])"
| "truthy (PList xs) = (xs \<noteq> [])"
| "truthy (PDict kvs) = (kvs \<noteq> [])"

section \<open>backend/cache.py: SimpleCache\<close>

text \<open>
  Clock readings (\<^verbatim>\<open>datetime.utcnow()\<close>) are integers counting microseconds, the
  resolution of \<^verbatim>\<open>datetime\<close>; \<^verbatim>\<open>timedelta(seconds=n)\<close> is \<open>n * 1000000\<close>.
  The two dictionaries of the class are the two fields of the record. Every method
  takes the clock reading it would obtain and returns the updated object.
\<close>

type_synonym time = int

record SimpleCache =
  cache_d :: "string \<rightharpoonup> pyval"
  expiry_d :: "string \<rightharpoonup> time"

definition seconds :: "int \<Rightarrow> time" where
  "seconds n = n * 1000000"

definition SimpleCache_get :: "SimpleCache \<Rightarrow> string \<Rightarrow> time \<Rightarrow> pyval \<times> SimpleCache" where
  "SimpleCache_get c key now =
     (case cache_d c key of
        None \<Rightarrow> (PNone, c)
      | Some v \<Rightarrow>
          (case expiry_d c key of
             None \<Rightarrow> (v, c)
           | Some e \<Rightarrow>
               if now > e
               then (PNone, c\<lparr>cache_d := (cache_d c)(key := None),
                               expiry_d := (expiry_d c)(key := None)\<rparr>)
               else (v, c)))"

definition SimpleCache_set :: "SimpleCache \<Rightarrow> string \<Rightarrow> pyval \<Rightarrow> int \<Rightarrow> time \<Rightarrow> SimpleCache" where
  "SimpleCache_set c key v ttl_seconds now =
     c\<lparr>cache_d := (cache_d c)(key \<mapsto> v),
       expiry_d := (expiry_d c)(key \<mapsto> now + seconds ttl_seconds)\<rparr>"

section \<open>backend/services/highlightly.py: the request client\<close>

text \<open>
  Library functions whose results the model does not compute are parameters of the
  embedding: \<^verbatim>\<open>hashlib.md5(..).hexdigest()\<close>, \<^verbatim>\<open>json.dumps(.., sort_keys=True)\<close>,
  the conversions \<^verbatim>\<open>int(s)\<close> and \<^verbatim>\<open>float(s)\<close> of a string (\<open>None\<close> where Python raises
  \<^verbatim>\<open>ValueError\<close>), \<^verbatim>\<open>str\<close> of a float, a list or a dictionary, and the string methods
  \<^verbatim>\<open>lower\<close>, \<^verbatim>\<open>upper\<close>, \<^verbatim>\<open>strip\<close> and \<^verbatim>\<open>isdigit\<close>, whose results depend on the Unicode
  character tables. A string is the sequence of the bytes of its UTF-8 encoding.
\<close>

record pylib =
  md5_hexdigest :: "string \<Rightarrow> string"
  json_dumps :: "pyval \<Rightarrow> string"
  int_of_str :: "string \<Rightarrow> int option"
  float_of_str :: "string \<Rightarrow> rat option"
  repr_other :: "pyval \<Rightarrow> string"
  str_lower :: "string \<Rightarrow> string"
  str_upper :: "string \<Rightarrow> string"
  str_strip :: "string \<Rightarrow> string"
  str_isdigit :: "string \<Rightarrow> bool"

text \<open>Decimal rendering of an integer, as an f-string or \<^verbatim>\<open>str\<close> produces it.\<close>

function show_nat :: "nat \<Rightarrow> string" where
  "show_nat n =
     (if n < 10 then [''0123456789'' ! n]
      else show_nat (n div 10) @ [''0123456789'' ! (n mod 10)])"
  by pat_completeness auto
termination
  by (relation "measure id") auto

declare show_nat.simps [simp del]

definition show_int :: "int \<Rightarrow> string" where
  "show_int i = (if i < 0 then CHR ''-'' # show_nat (nat (- i)) else show_nat (nat i))"

text \<open>
  What one \<^verbatim>\<open>await self.client.get(endpoint, params=...)\<close> yields: a response with its
  status code, its decoded body (\<open>None\<close> where \<^verbatim>\<open>resp.json()\<close> raises
  \<^verbatim>\<open>JSONDecodeError\<close>) and its text; an \<^verbatim>\<open>httpx.RequestError\<close> or timeout; or any
  other exception, with its message.
\<close>

datatype response =
    Http int "pyval option" string
  | RequestError string
  | OtherError string

text \<open>
  A file of the persistent cache directory: unreadable (opening or parsing it raises),
  or a payload with its \<^verbatim>\<open>expires_at\<close> (\<open>None\<close> when the entry is missing or falsy) and
  its \<^verbatim>\<open>data\<close>.
\<close>

datatype cache_file = Unreadable | Payload "time option" pyval

text \<open>
  The file \<^verbatim>\<open>teams_all.json\<close> of the same directory; its \<^verbatim>\<open>data\<close> entry may be missing
  (\<open>None\<close>), in which case the reader takes the empty list.
\<close>

datatype teams_payload = TeamsUnreadable | TeamsPayload "time option" "pyval option"

text \<open>
  The client object together with the part of the world it acts on: the cache
  directory, whether writing to it succeeds, the clock, the requests issued so far and
  the delays passed to \<^verbatim>\<open>asyncio.sleep\<close> (in microseconds). The upstream is a function
  \<open>net\<close> giving the outcome of the \<open>i\<close>-th request (counting from 0) for its endpoint
  and parameters.
\<close>

type_synonym params = "(string \<times> pyval) list"

record client =
  cache :: "string \<rightharpoonup> pyval"
  cache_expiry :: "string \<rightharpoonup> time"
  team_id_cache :: "string \<rightharpoonup> pyval"
  teams_cache :: pyval
  files :: "string \<rightharpoonup> cache_file"
  teams_file :: "teams_payload option"
  disk_ok :: bool
  clock :: time
  sent :: "(string \<times> params) list"
  slept :: "time list"

type_synonym net = "nat \<Rightarrow> string \<Rightarrow> params \<Rightarrow> response"

definition minutes :: "int \<Rightarrow> time" where
  "minutes n = n * 60000000"

definition hours :: "int \<Rightarrow> time" where
  "hours n = n * 3600000000"

definition sleep :: "time \<Rightarrow> client \<Rightarrow> client" where
  "sleep d c = c\<lparr>clock := clock c + d, slept := slept c @ [d]\<rparr>"

definition generate_cache_key :: "pylib \<Rightarrow> string \<Rightarrow> params \<Rightarrow> string" where
  "generate_cache_key lib endpoint ps =
     md5_hexdigest lib (endpoint @ '':'' @ json_dumps lib (PDict ps))"

definition is_cache_valid :: "client \<Rightarrow> string \<Rightarrow> bool" where
  "is_cache_valid c cache_key =
     (case cache_expiry c cache_key of
        None \<Rightarrow> False
      | Some e \<Rightarrow> clock c < e)"

definition cache_data :: "client \<Rightarrow> string \<Rightarrow> pyval \<Rightarrow> int \<Rightarrow> client" where
  "cache_data c cache_key data ttl_minutes =
     c\<lparr>cache := (cache c)(cache_key \<mapsto> data),
       cache_expiry := (cache_expiry c)(cache_key \<mapsto> clock c + minutes ttl_minutes),
       files := (if disk_ok c
                 then (files c)(cache_key \<mapsto> Payload (Some (clock c + minutes ttl_minutes)) data)
                 else files c)\<rparr>"

definition remove_file :: "client \<Rightarrow> string \<Rightarrow> client" where
  "remove_file c cache_key =
     c\<lparr>files := (if disk_ok c then (files c)(cache_key := None) else files c)\<rparr>"

definition get_cached_data :: "client \<Rightarrow> string \<Rightarrow> pyval \<times> client" where
  "get_cached_data c cache_key =
     (if is_cache_valid c cache_key
      then (case cache c cache_key of None \<Rightarrow> (PNone, c) | Some v \<Rightarrow> (v, c))
      else
        let c1 = c\<lparr>cache := (cache c)(cache_key := None),
                    cache_expiry := (cache_expiry c)(cache_key := None)\<rparr>
        in case files c1 cache_key of
             None \<Rightarrow> (PNone, c1)
           | Some Unreadable \<Rightarrow> (PNone, c1)
           | Some (Payload None data) \<Rightarrow> (PNone, remove_file c1 cache_key)
           | Some (Payload (Some e) data) \<Rightarrow>
               if e > clock c1 then (data, c1) else (PNone, remove_file c1 cache_key))"

definition error_result :: "string \<Rightarrow> int \<Rightarrow> string \<Rightarrow> pyval" where
  "error_result msg status endpoint =
     PDict [(''error'', PStr msg), (''status'', PInt status),
            (''endpoint'', PStr endpoint), (''data'', PList [])]"

text \<open>
  The loop \<^verbatim>\<open>for attempt in range(max_attempts)\<close> of \<^verbatim>\<open>_make_request\<close>: the first
  numeric argument counts the iterations left, the second is \<^verbatim>\<open>attempt\<close>.
\<close>

fun request_loop ::
  "net \<Rightarrow> string \<Rightarrow> string \<Rightarrow> params \<Rightarrow> int \<Rightarrow> nat \<Rightarrow> nat \<Rightarrow> client \<Rightarrow> pyval \<times> client" where
  "request_loop nt cache_key endpoint ps cache_ttl 0 attempt c =
     (error_result ''Request failed after retries'' 503 endpoint, c)"
| "request_loop nt cache_key endpoint ps cache_ttl (Suc left) attempt c =
     (let c1 = c\<lparr>sent := sent c @ [(endpoint, ps)]\<rparr> in
      case nt (length (sent c)) endpoint ps of
        RequestError e \<Rightarrow>
          request_loop nt cache_key endpoint ps cache_ttl left (Suc attempt)
            (sleep (seconds (2 ^ attempt)) c1)
      | OtherError e \<Rightarrow>
          (error_result (''Unexpected error: '' @ e) 500 endpoint, c1)
      | Http status body txt \<Rightarrow>
          if 200 \<le> status \<and> status < 300 then
            (case body of
               None \<Rightarrow> (error_result ''Invalid JSON response'' 500 endpoint, c1)
             | Some data \<Rightarrow> (data, cache_data c1 cache_key data cache_ttl))
          else if status = 429 then
            request_loop nt cache_key endpoint ps cache_ttl left (Suc attempt)
              (sleep (seconds (2 ^ attempt)) c1)
          else if 400 \<le> status \<and> status < 500 then
            (error_result (''Client error '' @ show_int status) status endpoint, c1)
          else
            request_loop nt cache_key endpoint ps cache_ttl left (Suc attempt)
              (sleep (seconds (2 ^ attempt)) c1))"

definition max_attempts :: nat where
  "max_attempts = 4"

text \<open>\<^verbatim>\<open>clean_params = dict(params or {}); clean_params.pop('sport', None)\<close>\<close>

definition clean_params :: "params \<Rightarrow> params" where
  "clean_params ps = filter (\<lambda>(k, v). k \<noteq> ''sport'') ps"

definition make_request :: "pylib \<Rightarrow> net \<Rightarrow> string \<Rightarrow> params \<Rightarrow> int \<Rightarrow> client \<Rightarrow> pyval \<times> client" where
  "make_request lib nt endpoint ps cache_ttl c =
     (let cache_key = generate_cache_key lib endpoint (clean_params ps);
          (cached, c1) = get_cached_data c cache_key
      in if truthy cached then (cached, c1)
         else request_loop nt cache_key endpoint (clean_params ps) cache_ttl max_attempts 0 c1)"

text \<open>An upstream that gives the same answer to every request.\<close>

definition upstream_const :: "response \<Rightarrow> net" where
  "upstream_const r = (\<lambda>i endpoint ps. r)"

text \<open>The object built by \<^verbatim>\<open>__init__\<close>, with an empty cache directory, at clock reading 0.\<close>

definition new_client :: client where
  "new_client =
     \<lparr>cache = Map.empty, cache_expiry = Map.empty, team_id_cache = Map.empty,
      teams_cache = PList [], files = Map.empty, teams_file = None, disk_ok = True,
      clock = 0, sent = [], slept = []\<rparr>"

section \<open>Strings and dictionaries\<close>

text \<open>
  Strings are ordered by their bytes, which is the order of their code points. The
  functions \<open>ascii_lower\<close>, \<open>ascii_upper\<close>, \<open>ascii_strip\<close> and \<open>ascii_isdigit\<close> are what
  the string methods compute on ASCII text; they only serve to build an instance of the
  library parameters.
\<close>

definition lower_char :: "char \<Rightarrow> char" where
  "lower_char ch =
     (case map_of (zip ''ABCDEFGHIJKLMNOPQRSTUVWXYZ'' ''abcdefghijklmnopqrstuvwxyz'') ch of
        None \<Rightarrow> ch | Some l \<Rightarrow> l)"

definition upper_char :: "char \<Rightarrow> char" where
  "upper_char ch =
     (case map_of (zip ''abcdefghijklmnopqrstuvwxyz'' ''ABCDEFGHIJKLMNOPQRSTUVWXYZ'') ch of
        None \<Rightarrow> ch | Some u \<Rightarrow> u)"

definition ascii_lower :: "string \<Rightarrow> string" where
  "ascii_lower s = map lower_char s"

definition ascii_upper :: "string \<Rightarrow> string" where
  "ascii_upper s = map upper_char s"

definition is_space :: "char \<Rightarrow> bool" where
  "is_space ch = (ch \<in> {CHR '' '', CHR 0x09, CHR 0x0A, CHR 0x0B, CHR 0x0C, CHR 0x0D})"

definition ascii_strip :: "string \<Rightarrow> string" where
  "ascii_strip s = rev (dropWhile is_space (rev (dropWhile is_space s)))"

fun join :: "string \<Rightarrow> string list \<Rightarrow> string" where
  "join sep [] = []"
| "join sep [x] = x"
| "join sep (x # y # ys) = x @ sep @ join sep (y # ys)"

fun str_le :: "string \<Rightarrow> string \<Rightarrow> bool" where
  "str_le [] ys = True"
| "str_le (x # xs) [] = False"
| "str_le (x # xs) (y # ys) =
     (if x = y then str_le xs ys else (of_char x :: nat) < of_char y)"

text \<open>\<^verbatim>\<open>sorted([a, b])\<close>\<close>

definition sorted2 :: "string \<Rightarrow> string \<Rightarrow> string list" where
  "sorted2 a b = (if str_le a b then [a, b] else [b, a])"

text \<open>
  An instance of the library parameters, for evaluating the model on examples: the
  digest is the identity, \<^verbatim>\<open>json.dumps\<close> lists the keys of a dictionary with their string
  values, \<^verbatim>\<open>str\<close> of a float or container renders nothing, the numeric conversions
  accept an unsigned or negated run of decimal digits, and the string methods are those
  of ASCII text.
\<close>

definition digit_of :: "char \<Rightarrow> nat option" where
  "digit_of ch =
     map_of [(CHR ''0'', 0), (CHR ''1'', 1), (CHR ''2'', 2), (CHR ''3'', 3), (CHR ''4'', 4),
             (CHR ''5'', 5), (CHR ''6'', 6), (CHR ''7'', 7), (CHR ''8'', 8), (CHR ''9'', 9)] ch"

definition ascii_isdigit :: "string \<Rightarrow> bool" where
  "ascii_isdigit s = (s \<noteq> [] \<and> (\<forall>ch \<in> set s. digit_of ch \<noteq> None))"

fun digits_val :: "string \<Rightarrow> nat \<Rightarrow> nat option" where
  "digits_val [] acc = Some acc"
| "digits_val (ch # cs) acc =
     (case digit_of ch of None \<Rightarrow> None | Some d \<Rightarrow> digits_val cs (10 * acc + d))"

definition plain_int :: "string \<Rightarrow> int option" where
  "plain_int s =
     (case s of
        [] \<Rightarrow> None
      | ch # cs \<Rightarrow>
          if ch = CHR ''-''
          then (if cs = [] then None else map_option (\<lambda>n. - int n) (digits_val cs 0))
          else map_option int (digits_val s 0))"

definition sample_dumps :: "pyval \<Rightarrow> string" where
  "sample_dumps v =
     (case v of
        PDict kvs \<Rightarrow>
          concat (map (\<lambda>(k, x). k @ ''='' @ (case x of PStr t \<Rightarrow> t | _ \<Rightarrow> []) @ '';'') kvs)
      | _ \<Rightarrow> [])"

definition sample_lib :: pylib where
  "sample_lib =
     \<lparr>md5_hexdigest = (\<lambda>s. s), json_dumps = sample_dumps,
      int_of_str = plain_int,
      float_of_str = (\<lambda>s. map_option of_int (plain_int s)),
      repr_other = (\<lambda>v. []),
      str_lower = ascii_lower, str_upper = ascii_upper, str_strip = ascii_strip,
      str_isdigit = ascii_isdigit\<rparr>"

text \<open>\<^verbatim>\<open>x or y\<close>\<close>

definition py_or :: "pyval \<Rightarrow> pyval \<Rightarrow> pyval" where
  "py_or x y = (if truthy x then x else y)"

text \<open>\<^verbatim>\<open>isinstance(v, list) and len(v) > 0\<close>\<close>

fun nonempty_list :: "pyval \<Rightarrow> bool" where
  "nonempty_list (PList xs) = (xs \<noteq> [])"
| "nonempty_list v = False"

section \<open>backend/services/agent.py: the head-to-head guard\<close>

text \<open>
  The part of \<^verbatim>\<open>fetch_highlightly_data\<close> entered when both team names and the client
  are present, up to the point where the latest match is selected. The agent's state
  is its last-known-good dictionary \<^verbatim>\<open>_h2h_cache\<close>, the number of calls made to
  \<^verbatim>\<open>get_head_to_head\<close> and the delays slept. The client is a function \<open>hl\<close> giving the
  value returned by the \<open>i\<close>-th call of \<^verbatim>\<open>get_head_to_head\<close> for its arguments. The
  segment either returns a result dictionary or goes on with the match list.
\<close>

record agent =
  h2h_cache :: "string \<rightharpoonup> pyval"
  h2h_calls :: nat
  h2h_slept :: "time list"

datatype outcome = Return pyval | Proceed pyval

text \<open>The agent as \<^verbatim>\<open>__init__\<close> leaves it: \<^verbatim>\<open>self._h2h_cache = {}\<close>.\<close>

definition new_agent :: agent where
  "new_agent = \<lparr>h2h_cache = Map.empty, h2h_calls = 0, h2h_slept = []\<rparr>"

type_synonym h2h_client = "nat \<Rightarrow> string \<Rightarrow> string \<Rightarrow> string \<Rightarrow> pyval"

text \<open>
  \<^verbatim>\<open>r.get("data", []) if isinstance(r, dict) else (r or [])\<close>
\<close>

definition h2h_data_of :: "pyval \<Rightarrow> pyval" where
  "h2h_data_of r =
     (case r of
        PDict kvs \<Rightarrow> (case map_of kvs ''data'' of None \<Rightarrow> PList [] | Some v \<Rightarrow> v)
      | _ \<Rightarrow> py_or r (PList []))"

definition league_tag_of :: "pylib \<Rightarrow> string option \<Rightarrow> string" where
  "league_tag_of lib league =
     str_upper lib (case league of None \<Rightarrow> ''NFL'' | Some l \<Rightarrow> if l = [] then ''NFL'' else l)"

definition h2h_cache_key :: "pylib \<Rightarrow> string \<Rightarrow> string \<Rightarrow> string \<Rightarrow> string" where
  "h2h_cache_key lib league_tag home_team away_team =
     ''H2H:'' @ league_tag @ '':''
       @ join ''|'' (sorted2 (str_lower lib home_team) (str_lower lib away_team))"

definition fetch_head_to_head ::
  "pylib \<Rightarrow> h2h_client \<Rightarrow> string \<Rightarrow> string \<Rightarrow> string \<Rightarrow> string option \<Rightarrow> agent
     \<Rightarrow> outcome \<times> agent" where
  "fetch_head_to_head lib hl api_sport home_team away_team league a =
     (let league_tag = league_tag_of lib league;
          cache_key = h2h_cache_key lib league_tag home_team away_team;
          head_to_head = hl (h2h_calls a) home_team away_team league_tag;
          a1 = a\<lparr>h2h_calls := Suc (h2h_calls a)\<rparr>;
          h2h_data = h2h_data_of head_to_head
      in if \<not> nonempty_list h2h_data then
           (let cached = (case h2h_cache a1 cache_key of None \<Rightarrow> PNone | Some v \<Rightarrow> v)
            in if truthy cached then
                 (Return (PDict [(''data'', cached), (''sport'', PStr api_sport),
                                 (''type'', PStr ''head_to_head''), (''cache'', PBool True)]), a1)
               else
                 (let a2 = a1\<lparr>h2h_slept := h2h_slept a1 @ [500000]\<rparr>;
                      head_to_head_retry = hl (h2h_calls a2) home_team away_team league_tag;
                      a3 = a2\<lparr>h2h_calls := Suc (h2h_calls a2)\<rparr>;
                      h2h_retry = h2h_data_of head_to_head_retry
                  in if nonempty_list h2h_retry then
                       (Proceed h2h_retry,
                        a3\<lparr>h2h_cache := (h2h_cache a3)(cache_key \<mapsto> h2h_retry)\<rparr>)
                     else
                       (Return (PDict [(''data'', py_or h2h_retry (PList [])),
                                       (''sport'', PStr api_sport),
                                       (''type'', PStr ''head_to_head'')]), a3)))
         else
           (Proceed h2h_data, a1\<lparr>h2h_cache := (h2h_cache a1)(cache_key \<mapsto> h2h_data)\<rparr>))"

section \<open>backend/services/highlightly.py: team resolution\<close>

datatype pyerr = TypeError | AttributeError

text \<open>\<^verbatim>\<open>isinstance(v, int)\<close>: a \<^verbatim>\<open>bool\<close> is an \<^verbatim>\<open>int\<close>.\<close>

fun is_int :: "pyval \<Rightarrow> bool" where
  "is_int (PInt n) = True"
| "is_int (PBool b) = True"
| "is_int v = False"

text \<open>\<^verbatim>\<open>len(v)\<close>\<close>

fun py_len :: "pyval \<Rightarrow> pyerr + nat" where
  "py_len (PList xs) = Inr (length xs)"
| "py_len (PDict kvs) = Inr (length kvs)"
| "py_len (PStr s) = Inr (length s)"
| "py_len v = Inl TypeError"

text \<open>The elements \<^verbatim>\<open>list.extend(v)\<close> appends: those of a list, the keys of a
  dictionary, the characters of a string.\<close>

fun py_iter :: "pyval \<Rightarrow> pyerr + pyval list" where
  "py_iter (PList xs) = Inr xs"
| "py_iter (PDict kvs) = Inr (map (\<lambda>(k, v). PStr k) kvs)"
| "py_iter (PStr s) = Inr (map (\<lambda>ch. PStr [ch]) s)"
| "py_iter v = Inl TypeError"

text \<open>
  The paging loop of \<^verbatim>\<open>get_all_teams\<close>; the first numeric argument is
  \<^verbatim>\<open>max_pages - page\<close>.
\<close>

fun fetch_pages ::
  "pylib \<Rightarrow> net \<Rightarrow> int \<Rightarrow> nat \<Rightarrow> int \<Rightarrow> pyval list \<Rightarrow> client \<Rightarrow> (pyerr + pyval list) \<times> client" where
  "fetch_pages lib nt limit 0 offset all_teams c = (Inr all_teams, c)"
| "fetch_pages lib nt limit (Suc left) offset all_teams c =
     (let (resp, c1) = make_request lib nt ''/teams''
                         [(''limit'', PInt limit), (''offset'', PInt offset)] 120 c;
          data = (case resp of
                    PDict kvs \<Rightarrow> (case map_of kvs ''data'' of None \<Rightarrow> PList [] | Some v \<Rightarrow> v)
                  | _ \<Rightarrow> PList [])
      in if \<not> truthy data then (Inr all_teams, c1)
         else case py_iter data of
                Inl e \<Rightarrow> (Inl e, c1)
              | Inr items \<Rightarrow>
                  (case py_len data of
                     Inl e \<Rightarrow> (Inl e, c1)
                   | Inr n \<Rightarrow>
                       if int n < limit then (Inr (all_teams @ items), c1)
                       else fetch_pages lib nt limit left (offset + limit) (all_teams @ items) c1))"

text \<open>
  \<^verbatim>\<open>get_all_teams\<close>: the loaded catalogue if there is one; else the catalogue file if
  it is valid (logging its length, which fails for a value without length and then
  falls through to the fetch); else the pages fetched from the API, stored and written
  back with a life of 24 hours.
\<close>

definition fetch_and_store :: "pylib \<Rightarrow> net \<Rightarrow> int \<Rightarrow> nat \<Rightarrow> client \<Rightarrow> (pyerr + pyval) \<times> client" where
  "fetch_and_store lib nt limit max_pages c =
     (case fetch_pages lib nt limit max_pages 0 [] c of
        (Inl e, c1) \<Rightarrow> (Inl e, c1)
      | (Inr all_teams, c1) \<Rightarrow>
          (Inr (PList all_teams),
           c1\<lparr>teams_cache := PList all_teams,
               teams_file := (if disk_ok c1
                              then Some (TeamsPayload (Some (clock c1 + hours 24)) (Some (PList all_teams)))
                              else teams_file c1)\<rparr>))"

definition get_all_teams :: "pylib \<Rightarrow> net \<Rightarrow> int \<Rightarrow> nat \<Rightarrow> client \<Rightarrow> (pyerr + pyval) \<times> client" where
  "get_all_teams lib nt limit max_pages c =
     (if truthy (teams_cache c) then (Inr (teams_cache c), c)
      else case teams_file c of
             Some (TeamsPayload (Some e) d) \<Rightarrow>
               if e > clock c then
                 (let data = (case d of None \<Rightarrow> PList [] | Some v \<Rightarrow> v);
                      c1 = c\<lparr>teams_cache := data\<rparr>
                  in case py_len data of
                       Inr n \<Rightarrow> (Inr data, c1)
                     | Inl e \<Rightarrow> fetch_and_store lib nt limit max_pages c1)
               else fetch_and_store lib nt limit max_pages c
           | _ \<Rightarrow> fetch_and_store lib nt limit max_pages c)"

text \<open>\<^verbatim>\<open>bootstrap_team_cache\<close>: \<^verbatim>\<open>len(await self.get_all_teams())\<close>\<close>

definition bootstrap_team_cache :: "pylib \<Rightarrow> net \<Rightarrow> client \<Rightarrow> (pyerr + nat) \<times> client" where
  "bootstrap_team_cache lib nt c =
     (case get_all_teams lib nt 500 5 c of
        (Inl e, c1) \<Rightarrow> (Inl e, c1)
      | (Inr teams, c1) \<Rightarrow> (py_len teams, c1))"

definition team_cache_key :: "pylib \<Rightarrow> string \<Rightarrow> string option \<Rightarrow> string option \<Rightarrow> string \<Rightarrow> string" where
  "team_cache_key lib base_name display_name abbreviation league =
     join ''|''
       ([str_upper lib league, str_lower lib base_name]
        @ (case display_name of None \<Rightarrow> [] | Some d \<Rightarrow> if d = [] then [] else [str_lower lib d])
        @ (case abbreviation of None \<Rightarrow> [] | Some b \<Rightarrow> if b = [] then [] else [str_upper lib b]))"

text \<open>The \<^verbatim>\<open>params\<close> dictionary of the team query of \<^verbatim>\<open>resolve_team_id\<close>.\<close>

definition team_query :: "string \<Rightarrow> string option \<Rightarrow> string option \<Rightarrow> string \<Rightarrow> params" where
  "team_query base_name display_name abbreviation league =
     [(''name'', PStr base_name), (''league'', PStr league)]
     @ (case display_name of None \<Rightarrow> []
        | Some d \<Rightarrow> if d = [] then [] else [(''displayName'', PStr d)])
     @ (case abbreviation of None \<Rightarrow> []
        | Some b \<Rightarrow> if b = [] then [] else [(''abbreviation'', PStr b)])"

text \<open>
  The warm-up block of \<^verbatim>\<open>resolve_team_id\<close>, entered when the catalogue is empty; any
  exception raised inside it is swallowed.
\<close>

definition warm_teams :: "pylib \<Rightarrow> net \<Rightarrow> string \<Rightarrow> client \<Rightarrow> client" where
  "warm_teams lib nt league c =
     (let (resp_warm, c1) = make_request lib nt ''/teams'' [(''league'', PStr league)] 120 c;
          data_warm = (case resp_warm of
                         PDict kvs \<Rightarrow> (case map_of kvs ''data'' of None \<Rightarrow> PNone | Some v \<Rightarrow> v)
                       | PList xs \<Rightarrow> resp_warm
                       | _ \<Rightarrow> PList [])
      in if nonempty_list data_warm then c1\<lparr>teams_cache := data_warm\<rparr>
         else snd (bootstrap_team_cache lib nt c1))"

text \<open>
  \<^verbatim>\<open>if isinstance(result, dict) and "data" in result: result = result.get("data", [])\<close>
\<close>

definition unwrap_data :: "pyval \<Rightarrow> pyval" where
  "unwrap_data result0 =
     (case result0 of
        PDict kvs \<Rightarrow> (case map_of kvs ''data'' of None \<Rightarrow> result0 | Some v \<Rightarrow> v)
      | _ \<Rightarrow> result0)"

text \<open>The client after the warm-up, which is skipped when the catalogue is truthy.\<close>

definition warmed :: "pylib \<Rightarrow> net \<Rightarrow> string \<Rightarrow> client \<Rightarrow> client" where
  "warmed lib nt league c = (if \<not> truthy (teams_cache c) then warm_teams lib nt league c else c)"

definition resolve_team_id ::
  "pylib \<Rightarrow> net \<Rightarrow> string \<Rightarrow> string option \<Rightarrow> string option \<Rightarrow> string \<Rightarrow> client
     \<Rightarrow> (pyerr + pyval) \<times> client" where
  "resolve_team_id lib nt name display_name abbreviation league c =
     (let base_name = str_strip lib name;
          cache_key = team_cache_key lib base_name display_name abbreviation league;
          c1 = warmed lib nt league c
      in case team_id_cache c1 cache_key of
           Some team_id \<Rightarrow> (Inr team_id, c1)
         | None \<Rightarrow>
             (let ps = team_query base_name display_name abbreviation league;
                  (result0, c2) = make_request lib nt ''/teams'' ps 120 c1;
                  result = unwrap_data result0
              in case result of
                   PList (first # rest) \<Rightarrow>
                     (case first of
                        PDict team \<Rightarrow>
                          (let team_id = (case map_of team ''id'' of None \<Rightarrow> PNone | Some v \<Rightarrow> v)
                           in if is_int team_id
                              then (Inr team_id,
                                    c2\<lparr>team_id_cache := (team_id_cache c2)(cache_key \<mapsto> team_id)\<rparr>)
                              else (Inr PNone, c2))
                      | _ \<Rightarrow> (Inl AttributeError, c2))
                 | _ \<Rightarrow> (Inr PNone, c2)))"

section \<open>backend/services/agent.py: merging team statistics\<close>

text \<open>
  A statistics record (\<^verbatim>\<open>home\<close>, \<^verbatim>\<open>away\<close>, \<^verbatim>\<open>out\<close>, \<^verbatim>\<open>target\<close>) is a dictionary from field
  names to values; the order of its items plays no role, so it is a map. A source is a
  decoded JSON value.
\<close>

type_synonym stats = "string \<rightharpoonup> pyval"

text \<open>
  The record \<^verbatim>\<open>{k: 0 for k in fields}\<close> with which \<^verbatim>\<open>_extract_football_stats\<close> starts.
\<close>

definition empty_stats :: stats where
  "empty_stats =
     [''points'' \<mapsto> PInt 0, ''yards'' \<mapsto> PInt 0, ''completionPct'' \<mapsto> PInt 0,
      ''touchdowns'' \<mapsto> PInt 0, ''attempts'' \<mapsto> PInt 0, ''sacks'' \<mapsto> PInt 0]"

text \<open>Reading a field of the result of a step that may raise.\<close>

definition field_of :: "pyerr + stats \<Rightarrow> string \<Rightarrow> pyval option" where
  "field_of r k = (case r of Inl e \<Rightarrow> None | Inr out \<Rightarrow> out k)"

text \<open>The next statement runs on the record only if the previous one did not raise.\<close>

definition then_step :: "pyerr + stats \<Rightarrow> (stats \<Rightarrow> pyerr + stats) \<Rightarrow> pyerr + stats" where
  "then_step r f = (case r of Inl e \<Rightarrow> Inl e | Inr out \<Rightarrow> f out)"

text \<open>\<^verbatim>\<open>d.get(k)\<close> on the items of a dictionary.\<close>

definition dget :: "(string \<times> pyval) list \<Rightarrow> string \<Rightarrow> pyval" where
  "dget kvs k = (case map_of kvs k of None \<Rightarrow> PNone | Some v \<Rightarrow> v)"

text \<open>\<^verbatim>\<open>int(x)\<close> of a float truncates towards zero.\<close>

definition trunc :: "rat \<Rightarrow> int" where
  "trunc r = (if 0 \<le> r then \<lfloor>r\<rfloor> else \<lceil>r\<rceil>)"

text \<open>\<^verbatim>\<open>int(v)\<close> and \<^verbatim>\<open>float(v)\<close>; \<open>None\<close> where Python raises.\<close>

fun py_int :: "pylib \<Rightarrow> pyval \<Rightarrow> int option" where
  "py_int lib (PInt n) = Some n"
| "py_int lib (PBool b) = Some (if b then 1 else 0)"
| "py_int lib (PFloat r) = Some (trunc r)"
| "py_int lib (PStr s) = int_of_str lib s"
| "py_int lib v = None"

fun py_float :: "pylib \<Rightarrow> pyval \<Rightarrow> rat option" where
  "py_float lib (PInt n) = Some (of_int n)"
| "py_float lib (PBool b) = Some (if b then 1 else 0)"
| "py_float lib (PFloat r) = Some r"
| "py_float lib (PStr s) = float_of_str lib s"
| "py_float lib v = None"


text \<open>\<^verbatim>\<open>v in (0, None)\<close>: equality with 0 holds for the integer, the float and \<^verbatim>\<open>False\<close>.\<close>

fun zero_or_none :: "pyval \<Rightarrow> bool" where
  "zero_or_none PNone = True"
| "zero_or_none (PInt n) = (n = 0)"
| "zero_or_none (PFloat r) = (r = 0)"
| "zero_or_none (PBool b) = (\<not> b)"
| "zero_or_none v = False"

text \<open>\<^verbatim>\<open>int(v or 0)\<close>\<close>

definition int_or_zero :: "pylib \<Rightarrow> pyval \<Rightarrow> int option" where
  "int_or_zero lib v = (if truthy v then py_int lib v else Some 0)"

text \<open>
  One iteration of the loop of \<^verbatim>\<open>merge_preserve\<close>. An exception can only be raised by
  the two conversions of the \<^verbatim>\<open>touchdowns\<close> branch, where the key is present; the handler
  \<^verbatim>\<open>target[k] = target.get(k, v)\<close> then stores the value already there.
\<close>

definition merge_step :: "pylib \<Rightarrow> stats \<Rightarrow> string \<times> pyval \<Rightarrow> stats" where
  "merge_step lib target kv =
     (case kv of (k, v) \<Rightarrow>
        (case target k of
           None \<Rightarrow> target(k \<mapsto> v)
         | Some t \<Rightarrow>
             if zero_or_none t then target(k \<mapsto> v)
             else if k = ''touchdowns'' then
               (case int_or_zero lib t of
                  None \<Rightarrow> target
                | Some tv \<Rightarrow>
                    (case int_or_zero lib v of
                       None \<Rightarrow> target
                     | Some sv \<Rightarrow> if sv > 0 \<and> sv > tv then target(k \<mapsto> PInt sv) else target))
             else target))"

text \<open>\<^verbatim>\<open>isinstance(v, dict)\<close>\<close>

fun is_dict :: "pyval \<Rightarrow> bool" where
  "is_dict (PDict kvs) = True"
| "is_dict v = False"

text \<open>The value a key holds after one iteration, from the value it held before.\<close>

definition merge_value :: "pylib \<Rightarrow> string \<Rightarrow> pyval option \<Rightarrow> pyval \<Rightarrow> pyval option" where
  "merge_value lib k x v = merge_step lib (Map.empty(k := x)) (k, v) k"

definition merge_preserve :: "pylib \<Rightarrow> stats \<Rightarrow> pyval \<Rightarrow> stats" where
  "merge_preserve lib target source =
     (case source of
        PDict kvs \<Rightarrow> foldl (merge_step lib) target kvs
      | _ \<Rightarrow> target)"

text \<open>\<^verbatim>\<open>s.endswith(t)\<close>, \<^verbatim>\<open>t in s\<close> and \<^verbatim>\<open>s.replace(ch, '')\<close> for a character.\<close>

definition endswith :: "string \<Rightarrow> string \<Rightarrow> bool" where
  "endswith s t = (length t \<le> length s \<and> drop (length s - length t) s = t)"

fun contains :: "string \<Rightarrow> string \<Rightarrow> bool" where
  "contains t [] = (t = [])"
| "contains t (ch # cs) = (take (length t) (ch # cs) = t \<or> contains t cs)"

definition remove_all :: "char \<Rightarrow> string \<Rightarrow> string" where
  "remove_all ch s = filter (\<lambda>x. x \<noteq> ch) s"


subsection \<open>\<^verbatim>\<open>update_from_team_block\<close>\<close>











subsection \<open>\<^verbatim>\<open>preserve_enriched\<close>\<close>






subsection \<open>\<^verbatim>\<open>map_stats\<close>\<close>

text \<open>
  The number read from an item's \<^verbatim>\<open>value\<close>: a float, or the integer 0 when the
  conversion raises.
\<close>

definition item_number :: "pylib \<Rightarrow> pyval \<Rightarrow> pyval" where
  "item_number lib val =
     (case val of
        PStr s \<Rightarrow>
          if endswith s ''%''
          then (case float_of_str lib (str_strip lib (remove_all (CHR ''%'') s)) of
                  None \<Rightarrow> PInt 0 | Some r \<Rightarrow> PFloat r)
          else (case float_of_str lib s of None \<Rightarrow> PInt 0 | Some r \<Rightarrow> PFloat r)
      | _ \<Rightarrow> (case py_float lib val of None \<Rightarrow> PInt 0 | Some r \<Rightarrow> PFloat r))"

text \<open>\<^verbatim>\<open>int(num)\<close> for the number just read.\<close>

definition int_of_number :: "pyval \<Rightarrow> int" where
  "int_of_number num = (case num of PFloat r \<Rightarrow> trunc r | PInt n \<Rightarrow> n | _ \<Rightarrow> 0)"

text \<open>\<^verbatim>\<open>v + n\<close> for an integer \<open>n\<close>.\<close>

fun py_add_int :: "pyval \<Rightarrow> int \<Rightarrow> pyerr + pyval" where
  "py_add_int (PInt m) n = Inr (PInt (m + n))"
| "py_add_int (PFloat r) n = Inr (PFloat (r + of_int n))"
| "py_add_int (PBool b) n = Inr (PInt ((if b then 1 else 0) + n))"
| "py_add_int v n = Inl TypeError"

text \<open>
  \<^verbatim>\<open>(it.get("name") or it.get("displayName") or "").lower()\<close>: the item must be a
  dictionary and the name a string.
\<close>

definition item_name :: "pylib \<Rightarrow> pyval \<Rightarrow> pyerr + string" where
  "item_name lib it =
     (case it of
        PDict kvs \<Rightarrow>
          (case py_or (dget kvs ''name'') (py_or (dget kvs ''displayName'') (PStr [])) of
             PStr s \<Rightarrow> Inr (str_lower lib s)
           | _ \<Rightarrow> Inl AttributeError)
      | _ \<Rightarrow> Inl AttributeError)"

definition map_item :: "pylib \<Rightarrow> stats \<Rightarrow> pyval \<Rightarrow> pyerr + stats" where
  "map_item lib out it =
     (case item_name lib it of
        Inl e \<Rightarrow> Inl e
      | Inr name \<Rightarrow>
          (let num = item_number lib (case it of PDict kvs \<Rightarrow> dget kvs ''value'' | _ \<Rightarrow> PNone) in
           if contains ''yards'' name then
             (case py_add_int (case out ''yards'' of None \<Rightarrow> PInt 0 | Some y \<Rightarrow> y) (int_of_number num) of
                Inl e \<Rightarrow> Inl e
              | Inr y \<Rightarrow> Inr (out(''yards'' \<mapsto> y)))
           else if contains ''completion'' name then Inr (out(''completionPct'' \<mapsto> num))
           else if contains ''touchdown'' name \<or> contains ''td'' name then
             (case py_add_int (case out ''touchdowns'' of None \<Rightarrow> PInt 0 | Some t \<Rightarrow> t) (int_of_number num) of
                Inl e \<Rightarrow> Inl e
              | Inr t \<Rightarrow> Inr (out(''touchdowns'' \<mapsto> t)))
           else if contains ''pass attempt'' name \<or> contains ''passing attempts'' name
                   \<or> (contains ''attempts'' name \<and> contains ''pass'' name)
             then Inr (out(''attempts'' \<mapsto> PInt (int_of_number num)))
           else if contains ''sack'' name then Inr (out(''sacks'' \<mapsto> PInt (int_of_number num)))
           else Inr out))"

fun map_items :: "pylib \<Rightarrow> stats \<Rightarrow> pyval list \<Rightarrow> pyerr + stats" where
  "map_items lib out [] = Inr out"
| "map_items lib out (it # items) =
     (case map_item lib out it of
        Inl e \<Rightarrow> Inl e
      | Inr out1 \<Rightarrow> map_items lib out1 items)"

text \<open>
  \<^verbatim>\<open>map_stats(entry, out)\<close>. The entry is \<^verbatim>\<open>None\<close> or an element of the match-level
  statistics list chosen by \<^verbatim>\<open>pick_from_list\<close>, which is a dictionary. The items are
  those of a list; iterating a dictionary or a string yields strings, on which
  \<^verbatim>\<open>it.get\<close> raises, and a number cannot be iterated.
\<close>

definition map_stats :: "pylib \<Rightarrow> pyval \<Rightarrow> stats \<Rightarrow> pyerr + stats" where
  "map_stats lib entry out =
     (if \<not> truthy entry then Inr out
      else case entry of
             PDict kvs \<Rightarrow>
               (case py_or (dget kvs ''statistics'') (py_or (dget kvs ''stats'') (PList [])) of
                  PList items \<Rightarrow> map_items lib out items
                | PDict d \<Rightarrow> map_items lib out (map (\<lambda>(k, v). PStr k) d)
                | PStr str \<Rightarrow> map_items lib out (map (\<lambda>ch. PStr [ch]) str)
                | _ \<Rightarrow> Inl TypeError)
           | _ \<Rightarrow> Inl AttributeError)"

subsection \<open>\<^verbatim>\<open>_extract_stats_from_match_details\<close>: touchdowns from the player lists\<close>









text \<open>
  The block that enriches touchdowns from \<^verbatim>\<open>boxScores\<close> and \<^verbatim>\<open>topPerformers\<close>. The four
  sums are computed before anything is stored, and an exception raised by one of them
  leaves the statistics as they were.
\<close>





section \<open>Verified properties\<close>

subsection \<open>SimpleCache\<close>

text \<open>
  Claim C6. For every key, value and time-to-live: a \<^verbatim>\<open>get\<close> at any clock reading up to
  the expiry fixed by \<^verbatim>\<open>set\<close> (in particular at the reading of the \<^verbatim>\<open>set\<close> itself, for
  a time-to-live that is not negative) returns the stored value and leaves the cache as
  it is; a \<^verbatim>\<open>get\<close> after the time-to-live has elapsed returns absent and removes the key
  from both dictionaries; and in any cache whatever, a \<^verbatim>\<open>get\<close> of a key whose expiry lies
  in the past returns absent and leaves no value under the key.
\<close>

theorem SimpleCache_get_after_set:
  "(now' \<le> now + seconds ttl \<longrightarrow>
      SimpleCache_get (SimpleCache_set c k v ttl now) k now' = (v, SimpleCache_set c k v ttl now))
   \<and> (0 \<le> ttl \<longrightarrow>
      fst (SimpleCache_get (SimpleCache_set c k v ttl now) k now) = v)
   \<and> (now + seconds ttl < now' \<longrightarrow>
      fst (SimpleCache_get (SimpleCache_set c k v ttl now) k now') = PNone
      \<and> cache_d (snd (SimpleCache_get (SimpleCache_set c k v ttl now) k now')) k = None
      \<and> expiry_d (snd (SimpleCache_get (SimpleCache_set c k v ttl now) k now')) k = None)
   \<and> (expiry_d c0 k = Some e \<and> e < t \<longrightarrow>
      fst (SimpleCache_get c0 k t) = PNone
      \<and> cache_d (snd (SimpleCache_get c0 k t)) k = None)"
  by (auto simp: SimpleCache_get_def SimpleCache_set_def seconds_def split: option.splits)

theorem SimpleCache_get_after_set_witness:
  "(1 :: time) \<le> 0 + seconds 300
   \<and> SimpleCache_get (SimpleCache_set \<lparr>cache_d = Map.empty, expiry_d = Map.empty\<rparr> ''k'' (PInt 7) 300 0) ''k'' 1
       = (PInt 7, SimpleCache_set \<lparr>cache_d = Map.empty, expiry_d = Map.empty\<rparr> ''k'' (PInt 7) 300 0)
   \<and> (0 :: int) \<le> 300
   \<and> fst (SimpleCache_get (SimpleCache_set \<lparr>cache_d = Map.empty, expiry_d = Map.empty\<rparr> ''k'' (PInt 7) 300 0) ''k'' 0) = PInt 7
   \<and> (0 :: time) + seconds 300 < 300000001
   \<and> fst (SimpleCache_get (SimpleCache_set \<lparr>cache_d = Map.empty, expiry_d = Map.empty\<rparr> ''k'' (PInt 7) 300 0) ''k'' 300000001) = PNone
   \<and> expiry_d \<lparr>cache_d = [''k'' \<mapsto> PInt 7], expiry_d = [''k'' \<mapsto> 5]\<rparr> ''k'' = Some 5 \<and> (5 :: time) < 6
   \<and> fst (SimpleCache_get \<lparr>cache_d = [''k'' \<mapsto> PInt 7], expiry_d = [''k'' \<mapsto> 5]\<rparr> ''k'' 6) = PNone"
  using SimpleCache_get_after_set
          [of 1 0 300 "\<lparr>cache_d = Map.empty, expiry_d = Map.empty\<rparr>" "''k''" "PInt 7"
              "\<lparr>cache_d = [''k'' \<mapsto> PInt 7], expiry_d = [''k'' \<mapsto> 5]\<rparr>" 5 6]
        SimpleCache_get_after_set
          [of 300000001 0 300 "\<lparr>cache_d = Map.empty, expiry_d = Map.empty\<rparr>" "''k''" "PInt 7"
              "\<lparr>cache_d = [''k'' \<mapsto> PInt 7], expiry_d = [''k'' \<mapsto> 5]\<rparr>" 5 6]
  by (simp add: seconds_def)

subsection \<open>Request client: helper facts\<close>

lemma get_cached_data_log [simp]:
  "sent (snd (get_cached_data c k)) = sent c"
  "slept (snd (get_cached_data c k)) = slept c"
  "clock (snd (get_cached_data c k)) = clock c"
  "team_id_cache (snd (get_cached_data c k)) = team_id_cache c"
  "teams_cache (snd (get_cached_data c k)) = teams_cache c"
  by (auto simp: get_cached_data_def remove_file_def Let_def split: option.splits cache_file.splits)

lemma loop_retry:
  assumes "\<And>i. (\<exists>b t. nt i ep ps = Http 429 b t)"
  shows "fst (request_loop nt key ep ps ttl left a c) = error_result ''Request failed after retries'' 503 ep
     \<and> sent (snd (request_loop nt key ep ps ttl left a c)) = sent c @ replicate left (ep, ps)
     \<and> slept (snd (request_loop nt key ep ps ttl left a c)) = slept c @ map (\<lambda>j. seconds (2 ^ j)) [a ..< a + left]
     \<and> cache (snd (request_loop nt key ep ps ttl left a c)) = cache c"
proof (induction left arbitrary: a c)
  case 0
  show ?case by simp
next
  case (Suc left)
  obtain b t where r: "nt (length (sent c)) ep ps = Http 429 b t"
    using assms by blast
  let ?c1 = "sleep (seconds (2 ^ a)) (c\<lparr>sent := sent c @ [(ep, ps)]\<rparr>)"
  have eq: "request_loop nt key ep ps ttl (Suc left) a c = request_loop nt key ep ps ttl left (Suc a) ?c1"
    using r by (simp add: Let_def)
  have up: "[a ..< Suc (a + left)] = a # [Suc a ..< Suc (a + left)]"
    by (simp add: upt_conv_Cons)
  show ?case
    unfolding eq using Suc.IH [of "Suc a" ?c1]
    by (simp add: sleep_def up replicate_append_same del: upt_Suc)
qed

lemma make_request_miss:
  assumes "\<not> truthy (fst (get_cached_data c (generate_cache_key lib ep (clean_params ps))))"
  shows "make_request lib nt ep ps ttl c =
      request_loop nt (generate_cache_key lib ep (clean_params ps)) ep
        (clean_params ps) ttl max_attempts 0
        (snd (get_cached_data c (generate_cache_key lib ep (clean_params ps))))"
  using assms by (auto simp: make_request_def Let_def split: prod.splits)

lemma loop_first_request:
  "\<exists>rest. sent (snd (request_loop nt key ep ps ttl (Suc left) a c)) = sent c @ (ep, ps) # rest"
proof -
  have pre: "\<exists>rest. sent (snd (request_loop nt key ep ps ttl n b d)) = sent d @ rest" for n b d
  proof (induction n arbitrary: b d)
    case 0
    show ?case by simp
  next
    case (Suc n)
    have step: "\<exists>rest. sent (snd (request_loop nt key ep ps ttl n (Suc b)
                 (sleep w (d\<lparr>sent := sent d @ [(ep, ps)]\<rparr>)))) = sent d @ rest" for w
      using Suc.IH [of "Suc b" "sleep w (d\<lparr>sent := sent d @ [(ep, ps)]\<rparr>)"]
      by (auto simp: sleep_def)
    show ?case
      using step
      by (auto simp: Let_def cache_data_def split: response.splits option.splits)
  qed
  have step: "\<exists>rest. sent (snd (request_loop nt key ep ps ttl left (Suc a)
                 (sleep w (c\<lparr>sent := sent c @ [(ep, ps)]\<rparr>)))) = sent c @ (ep, ps) # rest" for w
    using pre [of left "Suc a" "sleep w (c\<lparr>sent := sent c @ [(ep, ps)]\<rparr>)"]
    by (auto simp: sleep_def)
  show ?thesis
    using step
    by (auto simp: Let_def cache_data_def split: response.splits option.splits)
qed

subsection \<open>Request client: retry, fail-fast and caching behaviour\<close>

text \<open>
  Claim C3, as the code has it. For a request that misses the cache and whose endpoint
  answers 429 on every attempt, \<^verbatim>\<open>_make_request\<close> issues exactly 4 requests, sleeps 1, 2,
  4 and 8 seconds after the successive attempts, and then returns the general
  retries-exhausted error: the dictionary with message \<^verbatim>\<open>Request failed after retries\<close>
  and status 503. The value does not record that the failures were rate limits.
\<close>

theorem make_request_rate_limited_exhausts:
  assumes "\<And>i. \<exists>b t. nt i ep (clean_params ps) = Http 429 b t"
    and "\<not> truthy (fst (get_cached_data c (generate_cache_key lib ep (clean_params ps))))"
  shows "fst (make_request lib nt ep ps ttl c) = error_result ''Request failed after retries'' 503 ep
     \<and> sent (snd (make_request lib nt ep ps ttl c))
         = sent c @ replicate 4 (ep, clean_params ps)
     \<and> slept (snd (make_request lib nt ep ps ttl c))
         = slept c @ [seconds 1, seconds 2, seconds 4, seconds 8]"
proof -
  have up: "[0 ..< 4] = [0, 1, 2, Suc 2]"
    by (simp add: upt_conv_Cons)
  show ?thesis
    unfolding make_request_miss [OF assms(2)]
    using loop_retry [of nt ep "clean_params ps", OF assms(1)]
    by (simp add: max_attempts_def up)
qed

theorem make_request_rate_limited_exhausts_witness:
  "(\<forall>i. \<exists>b t. (\<lambda>i e p. Http 429 None []) i ''/teams'' (clean_params []) = Http 429 b t)
   \<and> \<not> truthy (fst (get_cached_data new_client (generate_cache_key sample_lib ''/teams'' (clean_params []))))
   \<and> fst (make_request sample_lib (\<lambda>i e p. Http 429 None []) ''/teams'' [] 10 new_client)
         = error_result ''Request failed after retries'' 503 ''/teams''
   \<and> sent (snd (make_request sample_lib (\<lambda>i e p. Http 429 None []) ''/teams'' [] 10 new_client))
         = sent new_client @ replicate 4 (''/teams'', clean_params [])
   \<and> slept (snd (make_request sample_lib (\<lambda>i e p. Http 429 None []) ''/teams'' [] 10 new_client))
         = slept new_client @ [seconds 1, seconds 2, seconds 4, seconds 8]"
proof -
  have h1: "\<And>i. \<exists>b t. (\<lambda>i e p. Http 429 None []) i ''/teams'' (clean_params []) = Http 429 b t"
    by simp
  have h2: "\<not> truthy (fst (get_cached_data new_client
                (generate_cache_key sample_lib ''/teams'' (clean_params []))))"
    by (simp add: get_cached_data_def is_cache_valid_def new_client_def)
  show ?thesis
    using h1 h2 make_request_rate_limited_exhausts
                  [of "\<lambda>i e p. Http 429 None []" "''/teams''" "[]" new_client sample_lib 10, OF h1 h2]
    by simp
qed

text \<open>
  The claim as stated fails: on a fresh client whose endpoint always answers 429, the
  value returned carries status 503, not 429, and it is the very value returned when
  the endpoint always answers 500.
\<close>

theorem make_request_rate_limited_not_distinguished:
  "fst (make_request sample_lib (\<lambda>i e p. Http 429 None []) ''/teams'' [] 10 new_client)
     = PDict [(''error'', PStr ''Request failed after retries''), (''status'', PInt 503),
              (''endpoint'', PStr ''/teams''), (''data'', PList [])]
   \<and> fst (make_request sample_lib (\<lambda>i e p. Http 429 None []) ''/teams'' [] 10 new_client)
     = fst (make_request sample_lib (\<lambda>i e p. Http 500 None []) ''/teams'' [] 10 new_client)"
  by (simp add: make_request_def clean_params_def get_cached_data_def is_cache_valid_def new_client_def
        max_attempts_def eval_nat_numeral Let_def error_result_def sleep_def)

text \<open>
  Claim C4. For a request that misses the cache and whose response is a 4xx status
  other than 429, \<^verbatim>\<open>_make_request\<close> issues exactly one request, does not sleep, and
  returns the error dictionary whose \<^verbatim>\<open>status\<close> entry is that status code.
\<close>

theorem make_request_client_error_fails_fast:
  assumes "nt (length (sent c)) ep (clean_params ps) = Http status b t"
    and "400 \<le> status" and "status < 500" and "status \<noteq> 429"
    and "\<not> truthy (fst (get_cached_data c (generate_cache_key lib ep (clean_params ps))))"
  shows "fst (make_request lib nt ep ps ttl c)
           = PDict [(''error'', PStr (''Client error '' @ show_int status)), (''status'', PInt status),
                    (''endpoint'', PStr ep), (''data'', PList [])]
     \<and> sent (snd (make_request lib nt ep ps ttl c)) = sent c @ [(ep, clean_params ps)]
     \<and> slept (snd (make_request lib nt ep ps ttl c)) = slept c"
  unfolding make_request_miss [OF assms(5)]
  using assms(1-4)
  by (simp add: max_attempts_def eval_nat_numeral Let_def error_result_def)

theorem make_request_client_error_fails_fast_witness:
  "(\<lambda>i e p. Http 404 None ''missing'') (length (sent new_client)) ''/matches'' (clean_params [(''sport'', PStr ''nfl'')])
       = Http 404 None ''missing''
   \<and> (400 :: int) \<le> 404 \<and> (404 :: int) < 500 \<and> (404 :: int) \<noteq> 429
   \<and> \<not> truthy (fst (get_cached_data new_client
            (generate_cache_key sample_lib ''/matches'' (clean_params [(''sport'', PStr ''nfl'')]))))
   \<and> fst (make_request sample_lib (\<lambda>i e p. Http 404 None ''missing'') ''/matches'' [(''sport'', PStr ''nfl'')] 10 new_client)
       = PDict [(''error'', PStr ''Client error 404''), (''status'', PInt 404),
                (''endpoint'', PStr ''/matches''), (''data'', PList [])]
   \<and> sent (snd (make_request sample_lib (\<lambda>i e p. Http 404 None ''missing'') ''/matches'' [(''sport'', PStr ''nfl'')] 10 new_client))
       = [(''/matches'', [])]
   \<and> slept (snd (make_request sample_lib (\<lambda>i e p. Http 404 None ''missing'') ''/matches'' [(''sport'', PStr ''nfl'')] 10 new_client))
       = []"
proof -
  have h1: "(\<lambda>i e p. Http 404 None ''missing'') (length (sent new_client)) ''/matches''
              (clean_params [(''sport'', PStr ''nfl'')]) = Http 404 None ''missing''"
    by simp
  have h5: "\<not> truthy (fst (get_cached_data new_client
            (generate_cache_key sample_lib ''/matches'' (clean_params [(''sport'', PStr ''nfl'')]))))"
    by (simp add: get_cached_data_def is_cache_valid_def new_client_def)
  have s: "show_int 404 = ''404''"
    by (simp add: show_int_def show_nat.simps)
  show ?thesis
    using h5 make_request_client_error_fails_fast
                [of "\<lambda>i e p. Http 404 None ''missing''" new_client "''/matches''"
                    "[(''sport'', PStr ''nfl'')]" 404 None "''missing''" sample_lib 10, OF h1 _ _ _ h5]
    by (simp add: s new_client_def clean_params_def)
qed

text \<open>
  Claim C10. A 2xx response whose body is falsy is stored in the in-process cache under
  the request's key, with its expiry, and returned. It is never served from there:
  whenever the stored entry is present, unexpired and falsy, an identical call issues
  the upstream request again; and a call that returns the cached value without issuing
  a request does so only for a truthy cached value.
\<close>

theorem make_request_falsy_body_never_served:
  "(nt (length (sent c)) ep (clean_params ps) = Http status (Some data) t
      \<and> 200 \<le> status \<and> status < 300 \<and> \<not> truthy data
      \<and> \<not> truthy (fst (get_cached_data c (generate_cache_key lib ep (clean_params ps))))
    \<longrightarrow> fst (make_request lib nt ep ps ttl c) = data
        \<and> cache (snd (make_request lib nt ep ps ttl c)) (generate_cache_key lib ep (clean_params ps)) = Some data
        \<and> cache_expiry (snd (make_request lib nt ep ps ttl c)) (generate_cache_key lib ep (clean_params ps))
              = Some (clock c + minutes ttl))
   \<and> (cache c' (generate_cache_key lib ep (clean_params ps)) = Some data'
      \<and> is_cache_valid c' (generate_cache_key lib ep (clean_params ps)) \<and> \<not> truthy data'
    \<longrightarrow> (\<exists>rest. sent (snd (make_request lib nt' ep ps ttl' c')) = sent c' @ (ep, clean_params ps) # rest))
   \<and> (fst (make_request lib nt' ep ps ttl' c') = fst (get_cached_data c' (generate_cache_key lib ep (clean_params ps)))
      \<and> sent (snd (make_request lib nt' ep ps ttl' c')) = sent c'
    \<longrightarrow> truthy (fst (get_cached_data c' (generate_cache_key lib ep (clean_params ps)))))"
proof (intro conjI impI)
  let ?k = "generate_cache_key lib ep (clean_params ps)"
  assume a: "nt (length (sent c)) ep (clean_params ps) = Http status (Some data) t
      \<and> 200 \<le> status \<and> status < 300 \<and> \<not> truthy data
      \<and> \<not> truthy (fst (get_cached_data c ?k))"
  then have miss: "\<not> truthy (fst (get_cached_data c ?k))" by simp
  have r: "request_loop nt ?k ep (clean_params ps) ttl max_attempts 0 (snd (get_cached_data c ?k))
        = (data, cache_data ((snd (get_cached_data c ?k))\<lparr>sent := sent c @ [(ep, clean_params ps)]\<rparr>) ?k data ttl)"
    using a by (simp add: max_attempts_def eval_nat_numeral Let_def)
  show "fst (make_request lib nt ep ps ttl c) = data"
    unfolding make_request_miss [OF miss] r by simp
  show "cache (snd (make_request lib nt ep ps ttl c)) ?k = Some data"
    unfolding make_request_miss [OF miss] r by (simp add: cache_data_def)
  show "cache_expiry (snd (make_request lib nt ep ps ttl c)) ?k = Some (clock c + minutes ttl)"
    unfolding make_request_miss [OF miss] r by (simp add: cache_data_def)
next
  let ?k = "generate_cache_key lib ep (clean_params ps)"
  assume b: "cache c' ?k = Some data' \<and> is_cache_valid c' ?k \<and> \<not> truthy data'"
  then have g: "get_cached_data c' ?k = (data', c')"
    by (simp add: get_cached_data_def)
  then have miss: "\<not> truthy (fst (get_cached_data c' ?k))" using b by simp
  show "\<exists>rest. sent (snd (make_request lib nt' ep ps ttl' c')) = sent c' @ (ep, clean_params ps) # rest"
    unfolding make_request_miss [OF miss] g
    using loop_first_request [of nt' ?k ep "clean_params ps" ttl' 3 0 c']
    by (simp add: max_attempts_def eval_nat_numeral)
next
  let ?k = "generate_cache_key lib ep (clean_params ps)"
  assume h: "fst (make_request lib nt' ep ps ttl' c') = fst (get_cached_data c' ?k)
      \<and> sent (snd (make_request lib nt' ep ps ttl' c')) = sent c'"
  show "truthy (fst (get_cached_data c' ?k))"
  proof (rule ccontr)
    assume miss: "\<not> truthy (fst (get_cached_data c' ?k))"
    obtain rest where "sent (snd (make_request lib nt' ep ps ttl' c')) = sent c' @ (ep, clean_params ps) # rest"
      unfolding make_request_miss [OF miss]
      using loop_first_request [of nt' ?k ep "clean_params ps" ttl' 3 0 "snd (get_cached_data c' ?k)"]
      by (auto simp: max_attempts_def eval_nat_numeral)
    with h show False by simp
  qed
qed

theorem make_request_falsy_body_never_served_witness:
  "(\<lambda>i e p. Http 200 (Some (PList [])) []) (length (sent new_client)) ''/h2h'' (clean_params []) = Http 200 (Some (PList [])) []
   \<and> (200 :: int) \<le> 200 \<and> (200 :: int) < 300 \<and> \<not> truthy (PList [])
   \<and> \<not> truthy (fst (get_cached_data new_client (generate_cache_key sample_lib ''/h2h'' (clean_params []))))
   \<and> fst (make_request sample_lib (\<lambda>i e p. Http 200 (Some (PList [])) []) ''/h2h'' [] 30 new_client) = PList []
   \<and> cache (snd (make_request sample_lib (\<lambda>i e p. Http 200 (Some (PList [])) []) ''/h2h'' [] 30 new_client))
        (generate_cache_key sample_lib ''/h2h'' (clean_params [])) = Some (PList [])
   \<and> cache (new_client\<lparr>cache := [''/h2h:'' \<mapsto> PList []], cache_expiry := [''/h2h:'' \<mapsto> 5]\<rparr>)
        (generate_cache_key sample_lib ''/h2h'' (clean_params [])) = Some (PList [])
   \<and> is_cache_valid (new_client\<lparr>cache := [''/h2h:'' \<mapsto> PList []], cache_expiry := [''/h2h:'' \<mapsto> 5]\<rparr>)
        (generate_cache_key sample_lib ''/h2h'' (clean_params []))
   \<and> (\<exists>rest. sent (snd (make_request sample_lib (\<lambda>i e p. Http 200 (Some (PList [])) []) ''/h2h'' [] 30
          (new_client\<lparr>cache := [''/h2h:'' \<mapsto> PList []], cache_expiry := [''/h2h:'' \<mapsto> 5]\<rparr>)))
        = sent (new_client\<lparr>cache := [''/h2h:'' \<mapsto> PList []], cache_expiry := [''/h2h:'' \<mapsto> 5]\<rparr>)
          @ (''/h2h'', clean_params []) # rest)"
proof -
  have k: "generate_cache_key sample_lib ''/h2h'' (clean_params []) = ''/h2h:''"
    by (simp add: generate_cache_key_def sample_lib_def sample_dumps_def clean_params_def)
  have h1: "\<not> truthy (fst (get_cached_data new_client (generate_cache_key sample_lib ''/h2h'' (clean_params []))))"
    by (simp add: get_cached_data_def is_cache_valid_def new_client_def)
  have h2: "is_cache_valid (new_client\<lparr>cache := [''/h2h:'' \<mapsto> PList []], cache_expiry := [''/h2h:'' \<mapsto> 5]\<rparr>)
              (generate_cache_key sample_lib ''/h2h'' (clean_params []))"
    by (simp add: k is_cache_valid_def new_client_def)
  show ?thesis
    using h1 h2 make_request_falsy_body_never_served
            [of "\<lambda>i e p. Http 200 (Some (PList [])) []" new_client "''/h2h''" "[]" 200 "PList []" "[]"
                sample_lib 30
                "new_client\<lparr>cache := [''/h2h:'' \<mapsto> PList []], cache_expiry := [''/h2h:'' \<mapsto> 5]\<rparr>"
                "PList []" "\<lambda>i e p. Http 200 (Some (PList [])) []" 30]
    by (simp add: k)
qed

text \<open>
  Claim C9, as the code has it. When the in-process tier has no valid entry for a key
  and the file tier holds an unexpired payload, \<^verbatim>\<open>_get_cached_data\<close> returns the payload's
  data and leaves the file in place, but does not copy the value into the in-process
  tier: after the read the in-process dictionaries have no entry for the key, and the
  next read of the key is answered from the file again.
\<close>

theorem get_cached_data_file_hit_not_promoted:
  assumes "\<not> is_cache_valid c k" and "files c k = Some (Payload (Some e) data)" and "clock c < e"
  shows "fst (get_cached_data c k) = data
     \<and> cache (snd (get_cached_data c k)) k = None
     \<and> cache_expiry (snd (get_cached_data c k)) k = None
     \<and> files (snd (get_cached_data c k)) = files c
     \<and> get_cached_data (snd (get_cached_data c k)) k = (data, snd (get_cached_data c k))"
  using assms
  by (simp add: get_cached_data_def is_cache_valid_def Let_def)

theorem get_cached_data_file_hit_not_promoted_witness:
  "\<not> is_cache_valid (new_client\<lparr>files := [''k'' \<mapsto> Payload (Some 100) (PInt 5)]\<rparr>) ''k''
   \<and> files (new_client\<lparr>files := [''k'' \<mapsto> Payload (Some 100) (PInt 5)]\<rparr>) ''k'' = Some (Payload (Some 100) (PInt 5))
   \<and> clock (new_client\<lparr>files := [''k'' \<mapsto> Payload (Some 100) (PInt 5)]\<rparr>) < 100
   \<and> fst (get_cached_data (new_client\<lparr>files := [''k'' \<mapsto> Payload (Some 100) (PInt 5)]\<rparr>) ''k'') = PInt 5
   \<and> cache_expiry (snd (get_cached_data (new_client\<lparr>files := [''k'' \<mapsto> Payload (Some 100) (PInt 5)]\<rparr>) ''k'')) ''k'' = None
   \<and> fst (get_cached_data (snd (get_cached_data (new_client\<lparr>files := [''k'' \<mapsto> Payload (Some 100) (PInt 5)]\<rparr>) ''k'')) ''k'') = PInt 5"
proof -
  let ?c = "new_client\<lparr>files := [''k'' \<mapsto> Payload (Some 100) (PInt 5)]\<rparr>"
  have h1: "\<not> is_cache_valid ?c ''k''"
    by (simp add: is_cache_valid_def new_client_def)
  have h2: "files ?c ''k'' = Some (Payload (Some 100) (PInt 5))"
    by simp
  have h3: "clock ?c < 100"
    by (simp add: new_client_def)
  show ?thesis
    using h1 h2 h3 get_cached_data_file_hit_not_promoted [OF h1 h2 h3]
    by simp
qed

text \<open>
  The claim as stated fails: after a read answered by a valid file entry, the in-process
  dictionary still has no entry for the key.
\<close>

theorem get_cached_data_promotion_counterexample:
  "fst (get_cached_data (new_client\<lparr>files := [''k'' \<mapsto> Payload (Some 100) (PInt 5)]\<rparr>) ''k'') = PInt 5
   \<and> cache (snd (get_cached_data (new_client\<lparr>files := [''k'' \<mapsto> Payload (Some 100) (PInt 5)]\<rparr>) ''k'')) ''k'' = None"
  by (simp add: get_cached_data_def is_cache_valid_def Let_def new_client_def)

subsection \<open>Head-to-head workflow\<close>

lemma h2h_cache_key_example:
  "h2h_cache_key sample_lib (league_tag_of sample_lib None) ''Chiefs'' ''Bills'' = ''H2H:NFL:bills|chiefs''"
  by (simp add: h2h_cache_key_def league_tag_of_def sample_lib_def ascii_upper_def upper_char_def
        ascii_lower_def lower_char_def sorted2_def)

text \<open>
  Claim C5. In the head-to-head workflow the last-known-good dictionary is either left
  as it is or receives, under the team pair's key, a non-empty match list that has just
  arrived. A non-empty first answer is stored under the key and the workflow goes on
  with it, after one call. When the first answer holds no non-empty list and the
  dictionary holds a truthy value for the pair, that value is returned with the flag
  \<^verbatim>\<open>cache: True\<close>, after exactly one call, no sleep and no change of the dictionary. When
  the first answer holds no non-empty list and nothing truthy is held for the pair,
  exactly one more call is made after one sleep of half a second: a non-empty list is
  stored and the workflow goes on with it; otherwise the result returned carries the
  retry's data if truthy and else the empty list (so an empty or missing list is
  returned as the empty list), carries no flag, and the dictionary is unchanged. In
  particular, after a first call with a non-empty answer, a second
  call whose answer is empty returns the list of the first call, flagged as reused.
\<close>

theorem fetch_head_to_head_empty_guard:
  fixes lib hl api home away league a
  defines "tag \<equiv> league_tag_of lib league"
    and "key \<equiv> h2h_cache_key lib (league_tag_of lib league) home away"
    and "first \<equiv> h2h_data_of (hl (h2h_calls a) home away (league_tag_of lib league))"
    and "second \<equiv> h2h_data_of (hl (Suc (h2h_calls a)) home away (league_tag_of lib league))"
    and "res \<equiv> fetch_head_to_head lib hl api home away league a"
  shows "(h2h_cache (snd res) = h2h_cache a
          \<or> (nonempty_list first \<and> h2h_cache (snd res) = (h2h_cache a)(key \<mapsto> first))
          \<or> (nonempty_list second \<and> h2h_cache (snd res) = (h2h_cache a)(key \<mapsto> second)))
     \<and> (nonempty_list first \<longrightarrow>
           res = (Proceed first,
                  a\<lparr>h2h_calls := Suc (h2h_calls a), h2h_cache := (h2h_cache a)(key \<mapsto> first)\<rparr>))
     \<and> (\<not> nonempty_list first \<and> h2h_cache a key = Some cached \<and> truthy cached \<longrightarrow>
           res = (Return (PDict [(''data'', cached), (''sport'', PStr api),
                                 (''type'', PStr ''head_to_head''), (''cache'', PBool True)]),
                  a\<lparr>h2h_calls := Suc (h2h_calls a)\<rparr>))
     \<and> (\<not> nonempty_list first \<and> (h2h_cache a key = None \<or> (\<exists>v. h2h_cache a key = Some v \<and> \<not> truthy v))
          \<and> nonempty_list second \<longrightarrow>
           res = (Proceed second,
                  a\<lparr>h2h_calls := Suc (Suc (h2h_calls a)), h2h_slept := h2h_slept a @ [500000],
                    h2h_cache := (h2h_cache a)(key \<mapsto> second)\<rparr>))
     \<and> (\<not> nonempty_list first \<and> (h2h_cache a key = None \<or> (\<exists>v. h2h_cache a key = Some v \<and> \<not> truthy v))
          \<and> \<not> nonempty_list second \<longrightarrow>
           res = (Return (PDict [(''data'', if truthy second then second else PList []),
                                 (''sport'', PStr api), (''type'', PStr ''head_to_head'')]),
                  a\<lparr>h2h_calls := Suc (Suc (h2h_calls a)), h2h_slept := h2h_slept a @ [500000]\<rparr>))
     \<and> (\<not> nonempty_list first \<and> (h2h_cache a key = None \<or> (\<exists>v. h2h_cache a key = Some v \<and> \<not> truthy v))
          \<and> \<not> truthy second \<longrightarrow>
           fst res = Return (PDict [(''data'', PList []), (''sport'', PStr api),
                                    (''type'', PStr ''head_to_head'')]))
     \<and> (nonempty_list first \<and> \<not> nonempty_list second \<longrightarrow>
           fetch_head_to_head lib hl api home away league (snd res)
             = (Return (PDict [(''data'', first), (''sport'', PStr api),
                               (''type'', PStr ''head_to_head''), (''cache'', PBool True)]),
                a\<lparr>h2h_calls := Suc (Suc (h2h_calls a)), h2h_cache := (h2h_cache a)(key \<mapsto> first)\<rparr>))"
proof -
  have t: "nonempty_list v \<Longrightarrow> truthy v" for v
    by (cases v) auto
  show ?thesis
    unfolding res_def first_def second_def key_def tag_def
    using t [of "h2h_data_of (hl (h2h_calls a) home away (league_tag_of lib league))"]
      t [of "h2h_data_of (hl (Suc (h2h_calls a)) home away (league_tag_of lib league))"]
    by (auto simp: fetch_head_to_head_def Let_def py_or_def split: option.splits)
qed

theorem fetch_head_to_head_empty_guard_witness:
  "nonempty_list (h2h_data_of ((\<lambda>i h w l. if i = 0 then PDict [(''data'', PList [PInt 41])] else PList [])
        (h2h_calls new_agent) ''Chiefs'' ''Bills'' (league_tag_of sample_lib None)))
   \<and> \<not> nonempty_list (h2h_data_of ((\<lambda>i h w l. if i = 0 then PDict [(''data'', PList [PInt 41])] else PList [])
        (Suc (h2h_calls new_agent)) ''Chiefs'' ''Bills'' (league_tag_of sample_lib None)))
   \<and> fetch_head_to_head sample_lib (\<lambda>i h w l. if i = 0 then PDict [(''data'', PList [PInt 41])] else PList [])
          ''american_football'' ''Chiefs'' ''Bills'' None new_agent
       = (Proceed (PList [PInt 41]),
          \<lparr>h2h_cache = [''H2H:NFL:bills|chiefs'' \<mapsto> PList [PInt 41]], h2h_calls = 1, h2h_slept = []\<rparr>)
   \<and> fetch_head_to_head sample_lib (\<lambda>i h w l. if i = 0 then PDict [(''data'', PList [PInt 41])] else PList [])
          ''american_football'' ''Chiefs'' ''Bills'' None
          (snd (fetch_head_to_head sample_lib (\<lambda>i h w l. if i = 0 then PDict [(''data'', PList [PInt 41])] else PList [])
                  ''american_football'' ''Chiefs'' ''Bills'' None new_agent))
       = (Return (PDict [(''data'', PList [PInt 41]), (''sport'', PStr ''american_football''),
                         (''type'', PStr ''head_to_head''), (''cache'', PBool True)]),
          \<lparr>h2h_cache = [''H2H:NFL:bills|chiefs'' \<mapsto> PList [PInt 41]], h2h_calls = 2, h2h_slept = []\<rparr>)
   \<and> \<not> nonempty_list (h2h_data_of ((\<lambda>i h w l. if i = 0 then PDict [(''data'', PList [PInt 41])] else PList [])
        (h2h_calls \<lparr>h2h_cache = [''H2H:NFL:bills|chiefs'' \<mapsto> PList [PInt 41]], h2h_calls = 1, h2h_slept = []\<rparr>)
        ''Chiefs'' ''Bills'' (league_tag_of sample_lib None)))
   \<and> h2h_cache \<lparr>h2h_cache = [''H2H:NFL:bills|chiefs'' \<mapsto> PList [PInt 41]], h2h_calls = 1, h2h_slept = []\<rparr>
         (h2h_cache_key sample_lib (league_tag_of sample_lib None) ''Chiefs'' ''Bills'') = Some (PList [PInt 41])
   \<and> truthy (PList [PInt 41])
   \<and> \<not> nonempty_list (h2h_data_of ((\<lambda>i h w l. if i = 1 then PList [PInt 42] else PList [])
        (h2h_calls new_agent) ''Chiefs'' ''Bills'' (league_tag_of sample_lib None)))
   \<and> h2h_cache new_agent (h2h_cache_key sample_lib (league_tag_of sample_lib None) ''Chiefs'' ''Bills'') = None
   \<and> nonempty_list (h2h_data_of ((\<lambda>i h w l. if i = 1 then PList [PInt 42] else PList [])
        (Suc (h2h_calls new_agent)) ''Chiefs'' ''Bills'' (league_tag_of sample_lib None)))
   \<and> fetch_head_to_head sample_lib (\<lambda>i h w l. if i = 1 then PList [PInt 42] else PList [])
          ''american_football'' ''Chiefs'' ''Bills'' None new_agent
       = (Proceed (PList [PInt 42]),
          \<lparr>h2h_cache = [''H2H:NFL:bills|chiefs'' \<mapsto> PList [PInt 42]], h2h_calls = 2, h2h_slept = [500000]\<rparr>)
   \<and> \<not> nonempty_list (h2h_data_of ((\<lambda>i h w l. PDict [(''data'', PList [])])
        (h2h_calls new_agent) ''Chiefs'' ''Bills'' (league_tag_of sample_lib None)))
   \<and> \<not> nonempty_list (h2h_data_of ((\<lambda>i h w l. PDict [(''data'', PList [])])
        (Suc (h2h_calls new_agent)) ''Chiefs'' ''Bills'' (league_tag_of sample_lib None)))
   \<and> \<not> truthy (h2h_data_of ((\<lambda>i h w l. PDict [(''data'', PList [])])
        (Suc (h2h_calls new_agent)) ''Chiefs'' ''Bills'' (league_tag_of sample_lib None)))
   \<and> fetch_head_to_head sample_lib (\<lambda>i h w l. PDict [(''data'', PList [])])
          ''american_football'' ''Chiefs'' ''Bills'' None new_agent
       = (Return (PDict [(''data'', PList []), (''sport'', PStr ''american_football''),
                         (''type'', PStr ''head_to_head'')]),
          \<lparr>h2h_cache = Map.empty, h2h_calls = 2, h2h_slept = [500000]\<rparr>)"
proof -
  let ?a1 = "\<lparr>h2h_cache = [''H2H:NFL:bills|chiefs'' \<mapsto> PList [PInt 41]], h2h_calls = 1, h2h_slept = []\<rparr>"
  note k = h2h_cache_key_example
  show ?thesis
    using fetch_head_to_head_empty_guard
            [where lib = sample_lib and hl = "\<lambda>i h w l. if i = 0 then PDict [(''data'', PList [PInt 41])] else PList []"
               and api = "''american_football''" and home = "''Chiefs''" and away = "''Bills''"
               and league = None and a = new_agent and cached = "PList [PInt 41]"]
          fetch_head_to_head_empty_guard
            [where lib = sample_lib and hl = "\<lambda>i h w l. if i = 0 then PDict [(''data'', PList [PInt 41])] else PList []"
               and api = "''american_football''" and home = "''Chiefs''" and away = "''Bills''"
               and league = None and a = ?a1 and cached = "PList [PInt 41]"]
          fetch_head_to_head_empty_guard
            [where lib = sample_lib and hl = "\<lambda>i h w l. if i = 1 then PList [PInt 42] else PList []"
               and api = "''american_football''" and home = "''Chiefs''" and away = "''Bills''"
               and league = None and a = new_agent and cached = "PList [PInt 41]"]
          fetch_head_to_head_empty_guard
            [where lib = sample_lib and hl = "\<lambda>i h w l. PDict [(''data'', PList [])]"
               and api = "''american_football''" and home = "''Chiefs''" and away = "''Bills''"
               and league = None and a = new_agent and cached = "PList [PInt 41]"]
    by (simp add: k h2h_data_of_def py_or_def new_agent_def)
qed

subsection \<open>Team resolution\<close>

lemma request_loop_team_id_cache [simp]:
  "team_id_cache (snd (request_loop nt key ep ps ttl left a c)) = team_id_cache c"
  by (induction left arbitrary: a c)
     (auto simp: Let_def cache_data_def sleep_def split: response.splits option.splits)

lemma make_request_team_id_cache [simp]:
  "team_id_cache (snd (make_request lib nt ep ps ttl c)) = team_id_cache c"
  by (auto simp: make_request_def Let_def split: prod.splits)
     (metis get_cached_data_log(4) snd_conv)+

lemma fetch_pages_team_id_cache [simp]:
  "team_id_cache (snd (fetch_pages lib nt limit left offset acc c)) = team_id_cache c"
proof (induction left arbitrary: offset acc c)
  case 0
  show ?case by simp
next
  case (Suc left)
  obtain resp c1 where m: "make_request lib nt ''/teams'' [(''limit'', PInt limit), (''offset'', PInt offset)] 120 c = (resp, c1)"
    by (cases "make_request lib nt ''/teams'' [(''limit'', PInt limit), (''offset'', PInt offset)] 120 c")
  have c1: "team_id_cache c1 = team_id_cache c"
    using make_request_team_id_cache [of lib nt "''/teams''" "[(''limit'', PInt limit), (''offset'', PInt offset)]" 120 c]
    by (simp add: m)
  show ?case
    using Suc.IH c1
    by (simp add: m Let_def split: sum.splits)
qed

lemma fetch_and_store_team_id_cache [simp]:
  "team_id_cache (snd (fetch_and_store lib nt limit mp c)) = team_id_cache c"
proof -
  obtain r c1 where f: "fetch_pages lib nt limit mp 0 [] c = (r, c1)"
    by (cases "fetch_pages lib nt limit mp 0 [] c")
  have "team_id_cache c1 = team_id_cache c"
    using fetch_pages_team_id_cache [of lib nt limit mp 0 "[]" c] by (simp add: f)
  then show ?thesis
    by (simp add: fetch_and_store_def f split: sum.splits)
qed

lemma get_all_teams_team_id_cache [simp]:
  "team_id_cache (snd (get_all_teams lib nt limit mp c)) = team_id_cache c"
  by (simp add: get_all_teams_def Let_def split: option.splits teams_payload.splits sum.splits)

lemma bootstrap_team_id_cache [simp]:
  "team_id_cache (snd (bootstrap_team_cache lib nt c)) = team_id_cache c"
proof -
  obtain r c1 where g: "get_all_teams lib nt 500 5 c = (r, c1)"
    by (cases "get_all_teams lib nt 500 5 c")
  have "team_id_cache c1 = team_id_cache c"
    using get_all_teams_team_id_cache [of lib nt 500 5 c] by (simp add: g)
  then show ?thesis
    by (simp add: bootstrap_team_cache_def g split: sum.splits)
qed

lemma warm_teams_team_id_cache [simp]:
  "team_id_cache (warm_teams lib nt league c) = team_id_cache c"
proof -
  obtain r c1 where m: "make_request lib nt ''/teams'' [(''league'', PStr league)] 120 c = (r, c1)"
    by (cases "make_request lib nt ''/teams'' [(''league'', PStr league)] 120 c")
  have "team_id_cache c1 = team_id_cache c"
    using make_request_team_id_cache [of lib nt "''/teams''" "[(''league'', PStr league)]" 120 c] by (simp add: m)
  then show ?thesis
    by (simp add: warm_teams_def m Let_def)
qed


lemma warmed_team_id_cache [simp]:
  "team_id_cache (warmed lib nt league c) = team_id_cache c"
  by (simp add: warmed_def)

lemma resolve_unfold:
  assumes "team_id_cache c (team_cache_key lib (str_strip lib name) dn ab league) = None"
    and "make_request lib nt ''/teams'' (team_query (str_strip lib name) dn ab league) 120 (warmed lib nt league c) = (r, c2)"
  shows "resolve_team_id lib nt name dn ab league c =
     (case unwrap_data r of
        PList (first # rest) \<Rightarrow>
          (case first of
             PDict team \<Rightarrow>
               if is_int (dget team ''id'')
               then (Inr (dget team ''id''),
                     c2\<lparr>team_id_cache := (team_id_cache c2)(team_cache_key lib (str_strip lib name) dn ab league \<mapsto> dget team ''id'')\<rparr>)
               else (Inr PNone, c2)
           | _ \<Rightarrow> (Inl AttributeError, c2))
      | _ \<Rightarrow> (Inr PNone, c2))"
  using assms
  by (auto simp add: resolve_team_id_def Let_def dget_def split: pyval.splits list.splits)

lemma resolve_hit:
  assumes "team_id_cache c (team_cache_key lib (str_strip lib name) dn ab league) = Some known"
  shows "resolve_team_id lib nt name dn ab league c = (Inr known, warmed lib nt league c)"
  using assms by (simp add: resolve_team_id_def Let_def)


lemma sample_team_key:
  "team_cache_key sample_lib (str_strip sample_lib ''Bills'') None None ''NFL'' = ''NFL|bills''"
  by (simp add: team_cache_key_def sample_lib_def ascii_strip_def is_space_def
        ascii_upper_def upper_char_def ascii_lower_def lower_char_def)

lemma sample_team_query:
  "clean_params (team_query (str_strip sample_lib ''Bills'') None None ''NFL'')
     = [(''name'', PStr ''Bills''), (''league'', PStr ''NFL'')]"
  by (simp add: team_query_def clean_params_def sample_lib_def ascii_strip_def is_space_def)

lemma sample_first_lookup:
  "resolve_team_id sample_lib (upstream_const (Http 200 (Some (PList [PDict [(''id'', PInt 12)]])) []))
      ''Bills'' None None ''NFL'' new_client
   = (Inr (PInt 12),
      new_client
       \<lparr>cache := [''/teams:league=NFL;'' \<mapsto> PList [PDict [(''id'', PInt 12)]],
                  ''/teams:name=Bills;league=NFL;'' \<mapsto> PList [PDict [(''id'', PInt 12)]]],
        cache_expiry := [''/teams:league=NFL;'' \<mapsto> minutes 120,
                         ''/teams:name=Bills;league=NFL;'' \<mapsto> minutes 120],
        files := [''/teams:league=NFL;'' \<mapsto> Payload (Some (minutes 120)) (PList [PDict [(''id'', PInt 12)]]),
                  ''/teams:name=Bills;league=NFL;'' \<mapsto> Payload (Some (minutes 120)) (PList [PDict [(''id'', PInt 12)]])],
        sent := [(''/teams'', [(''league'', PStr ''NFL'')]),
                 (''/teams'', [(''name'', PStr ''Bills''), (''league'', PStr ''NFL'')])],
        teams_cache := PList [PDict [(''id'', PInt 12)]],
        team_id_cache := [''NFL|bills'' \<mapsto> PInt 12]\<rparr>)"
  by (simp add: resolve_team_id_def warmed_def warm_teams_def team_cache_key_def Let_def new_client_def
        ascii_upper_def upper_char_def ascii_lower_def lower_char_def
        make_request_def clean_params_def team_query_def unwrap_data_def dget_def
        generate_cache_key_def sample_lib_def sample_dumps_def ascii_strip_def is_space_def
        get_cached_data_def is_cache_valid_def upstream_const_def
        max_attempts_def eval_nat_numeral cache_data_def)


text \<open>
  Claim C8, as the code has it. \<^verbatim>\<open>resolve_team_id\<close> records only a successful resolution.
  When no id is recorded for the key and the team query's answer (after the warm-up of
  an empty catalogue) begins with a team whose id is an integer, that id is returned and
  recorded under the key, and the next lookup of the name returns it from the
  resolution cache without a team query. A recorded id is returned with no change
  beyond the warm-up, and there is no warm-up when the catalogue is loaded. A lookup
  that returns \<^verbatim>\<open>None\<close> or raises leaves the resolution cache as it was: no failure is
  recorded. A lookup of a name without a recorded id is passed to the request client,
  and unless the request client's own cache answers with a truthy value the team query
  is sent upstream again.
\<close>

theorem resolve_team_id_caches_success_only:
  fixes lib nt name dn ab league c
  defines "key \<equiv> team_cache_key lib (str_strip lib name) dn ab league"
    and "query \<equiv> team_query (str_strip lib name) dn ab league"
    and "c1 \<equiv> warmed lib nt league c"
    and "res \<equiv> resolve_team_id lib nt name dn ab league c"
  shows "(team_id_cache c key = None
          \<and> unwrap_data (fst (make_request lib nt ''/teams'' query 120 c1)) = PList (PDict team # rest)
          \<and> is_int (dget team ''id'') \<longrightarrow>
            fst res = Inr (dget team ''id'')
            \<and> team_id_cache (snd res) = (team_id_cache c)(key \<mapsto> dget team ''id'')
            \<and> resolve_team_id lib nt name dn ab league (snd res)
                = (Inr (dget team ''id''), warmed lib nt league (snd res)))
     \<and> (team_id_cache c key = Some known \<longrightarrow> res = (Inr known, c1))
     \<and> (truthy (teams_cache c) \<longrightarrow> c1 = c)
     \<and> (fst res = Inr PNone \<or> fst res = Inl e \<longrightarrow> team_id_cache (snd res) = team_id_cache c)
     \<and> (team_id_cache c key = None
          \<and> \<not> truthy (fst (get_cached_data c1 (generate_cache_key lib ''/teams'' (clean_params query)))) \<longrightarrow>
            (\<exists>more. sent (snd res) = sent c1 @ (''/teams'', clean_params query) # more))"
proof (intro conjI impI)
  assume a: "team_id_cache c key = None
          \<and> unwrap_data (fst (make_request lib nt ''/teams'' query 120 c1)) = PList (PDict team # rest)
          \<and> is_int (dget team ''id'')"
  obtain r c2 where m: "make_request lib nt ''/teams'' query 120 c1 = (r, c2)"
    by (cases "make_request lib nt ''/teams'' query 120 c1")
  have c2: "team_id_cache c2 = team_id_cache c"
  proof -
    have "team_id_cache (snd (make_request lib nt ''/teams'' query 120 c1)) = team_id_cache c"
      by (simp add: c1_def)
    then show ?thesis
      by (simp only: m snd_conv)
  qed
  have r: "res = (Inr (dget team ''id''), c2\<lparr>team_id_cache := (team_id_cache c2)(key \<mapsto> dget team ''id'')\<rparr>)"
    unfolding res_def
    using a m resolve_unfold [of c lib name dn ab league nt r c2]
    by (simp add: key_def query_def c1_def)
  show "fst res = Inr (dget team ''id'')"
    by (simp add: r)
  show "team_id_cache (snd res) = (team_id_cache c)(key \<mapsto> dget team ''id'')"
    by (simp add: r c2)
  have "team_id_cache (snd res) key = Some (dget team ''id'')"
    by (simp add: r)
  then show "resolve_team_id lib nt name dn ab league (snd res)
      = (Inr (dget team ''id''), warmed lib nt league (snd res))"
    unfolding key_def by (rule resolve_hit)
next
  assume "team_id_cache c key = Some known"
  then show "res = (Inr known, c1)"
    unfolding res_def key_def c1_def by (rule resolve_hit)
next
  assume "truthy (teams_cache c)"
  then show "c1 = c"
    by (simp add: c1_def warmed_def)
next
  assume f: "fst res = Inr PNone \<or> fst res = Inl e"
  obtain r c2 where m: "make_request lib nt ''/teams'' query 120 c1 = (r, c2)"
    by (cases "make_request lib nt ''/teams'' query 120 c1")
  have c2: "team_id_cache c2 = team_id_cache c"
  proof -
    have "team_id_cache (snd (make_request lib nt ''/teams'' query 120 c1)) = team_id_cache c"
      by (simp add: c1_def)
    then show ?thesis
      by (simp only: m snd_conv)
  qed
  show "team_id_cache (snd res) = team_id_cache c"
  proof (cases "team_id_cache c key")
    case (Some known)
    then have "res = (Inr known, c1)"
      unfolding res_def key_def c1_def by (rule resolve_hit)
    then show ?thesis by (simp add: c1_def)
  next
    case None
    have "res = (case unwrap_data r of
        PList (first # rest) \<Rightarrow>
          (case first of
             PDict team \<Rightarrow>
               if is_int (dget team ''id'')
               then (Inr (dget team ''id''),
                     c2\<lparr>team_id_cache := (team_id_cache c2)(key \<mapsto> dget team ''id'')\<rparr>)
               else (Inr PNone, c2)
           | _ \<Rightarrow> (Inl AttributeError, c2))
      | _ \<Rightarrow> (Inr PNone, c2))"
      unfolding res_def key_def
      using None m resolve_unfold [of c lib name dn ab league nt r c2]
      by (simp add: key_def query_def c1_def)
    then show ?thesis
      using f c2 by (auto split: pyval.splits list.splits if_splits)
  qed
next
  let ?k = "generate_cache_key lib ''/teams'' (clean_params query)"
  assume a: "team_id_cache c key = None \<and> \<not> truthy (fst (get_cached_data c1 ?k))"
  then have miss: "\<not> truthy (fst (get_cached_data c1 ?k))" by simp
  obtain r c2 where m: "make_request lib nt ''/teams'' query 120 c1 = (r, c2)"
    by (cases "make_request lib nt ''/teams'' query 120 c1")
  have "\<exists>more. sent (snd (make_request lib nt ''/teams'' query 120 c1)) = sent c1 @ (''/teams'', clean_params query) # more"
    unfolding make_request_miss [OF miss]
    using loop_first_request [of nt ?k "''/teams''" "clean_params query" 120 3 0 "snd (get_cached_data c1 ?k)"]
    by (simp add: max_attempts_def eval_nat_numeral)
  then have s2: "\<exists>more. sent c2 = sent c1 @ (''/teams'', clean_params query) # more"
    by (simp add: m)
  have "sent (snd res) = sent c2"
    unfolding res_def
    using a m resolve_unfold [of c lib name dn ab league nt r c2]
    by (auto simp: key_def query_def c1_def split: pyval.splits list.splits)
  then show "\<exists>more. sent (snd res) = sent c1 @ (''/teams'', clean_params query) # more"
    using s2 by simp
qed


theorem resolve_team_id_caches_success_only_witness:
  "team_id_cache new_client (team_cache_key sample_lib (str_strip sample_lib ''Bills'') None None ''NFL'') = None
   \<and> unwrap_data (fst (make_request sample_lib (upstream_const (Http 200 (Some (PList [PDict [(''id'', PInt 12)]])) [])) ''/teams'' (team_query (str_strip sample_lib ''Bills'') None None ''NFL'') 120
                      (warmed sample_lib (upstream_const (Http 200 (Some (PList [PDict [(''id'', PInt 12)]])) [])) ''NFL'' new_client)))
       = PList (PDict [(''id'', PInt 12)] # [])
   \<and> is_int (dget [(''id'', PInt 12)] ''id'')
   \<and> fst (resolve_team_id sample_lib (upstream_const (Http 200 (Some (PList [PDict [(''id'', PInt 12)]])) [])) ''Bills'' None None ''NFL'' new_client) = Inr (PInt 12)
   \<and> team_id_cache (snd (resolve_team_id sample_lib (upstream_const (Http 200 (Some (PList [PDict [(''id'', PInt 12)]])) [])) ''Bills'' None None ''NFL'' new_client)) = [''NFL|bills'' \<mapsto> PInt 12]
   \<and> team_id_cache (snd (resolve_team_id sample_lib (upstream_const (Http 200 (Some (PList [PDict [(''id'', PInt 12)]])) [])) ''Bills'' None None ''NFL'' new_client)) (team_cache_key sample_lib (str_strip sample_lib ''Bills'') None None ''NFL'') = Some (PInt 12)
   \<and> truthy (teams_cache (snd (resolve_team_id sample_lib (upstream_const (Http 200 (Some (PList [PDict [(''id'', PInt 12)]])) [])) ''Bills'' None None ''NFL'' new_client)))
   \<and> resolve_team_id sample_lib (upstream_const (Http 200 (Some (PList [PDict [(''id'', PInt 12)]])) [])) ''Bills'' None None ''NFL'' (snd (resolve_team_id sample_lib (upstream_const (Http 200 (Some (PList [PDict [(''id'', PInt 12)]])) [])) ''Bills'' None None ''NFL'' new_client))
       = (Inr (PInt 12), snd (resolve_team_id sample_lib (upstream_const (Http 200 (Some (PList [PDict [(''id'', PInt 12)]])) [])) ''Bills'' None None ''NFL'' new_client))
   \<and> fst (resolve_team_id sample_lib (upstream_const (Http 200 (Some (PList [])) [])) ''Zebras'' None None ''NFL'' (new_client\<lparr>teams_cache := PList [PDict [(''id'', PInt 12)]]\<rparr>)) = Inr PNone
   \<and> team_id_cache (snd (resolve_team_id sample_lib (upstream_const (Http 200 (Some (PList [])) [])) ''Zebras'' None None ''NFL'' (new_client\<lparr>teams_cache := PList [PDict [(''id'', PInt 12)]]\<rparr>))) = team_id_cache (new_client\<lparr>teams_cache := PList [PDict [(''id'', PInt 12)]]\<rparr>)
   \<and> team_id_cache (new_client\<lparr>teams_cache := PList [PDict [(''id'', PInt 12)]]\<rparr>) (team_cache_key sample_lib (str_strip sample_lib ''Zebras'') None None ''NFL'') = None
   \<and> \<not> truthy (fst (get_cached_data (warmed sample_lib (upstream_const (Http 200 (Some (PList [])) [])) ''NFL'' (new_client\<lparr>teams_cache := PList [PDict [(''id'', PInt 12)]]\<rparr>))
               (generate_cache_key sample_lib ''/teams'' (clean_params (team_query (str_strip sample_lib ''Zebras'') None None ''NFL'')))))
   \<and> (\<exists>more. sent (snd (resolve_team_id sample_lib (upstream_const (Http 200 (Some (PList [])) [])) ''Zebras'' None None ''NFL'' (new_client\<lparr>teams_cache := PList [PDict [(''id'', PInt 12)]]\<rparr>)))
         = sent (warmed sample_lib (upstream_const (Http 200 (Some (PList [])) [])) ''NFL'' (new_client\<lparr>teams_cache := PList [PDict [(''id'', PInt 12)]]\<rparr>)) @ (''/teams'', clean_params (team_query (str_strip sample_lib ''Zebras'') None None ''NFL'')) # more)"
proof -
  have kb: "team_cache_key sample_lib (str_strip sample_lib ''Bills'') None None ''NFL'' = ''NFL|bills''"
    by (rule sample_team_key)
  have h1: "team_id_cache new_client (team_cache_key sample_lib (str_strip sample_lib ''Bills'') None None ''NFL'') = None"
    by (simp add: new_client_def)
  have h2: "unwrap_data (fst (make_request sample_lib (upstream_const (Http 200 (Some (PList [PDict [(''id'', PInt 12)]])) [])) ''/teams'' (team_query (str_strip sample_lib ''Bills'') None None ''NFL'') 120
                      (warmed sample_lib (upstream_const (Http 200 (Some (PList [PDict [(''id'', PInt 12)]])) [])) ''NFL'' new_client)))
       = PList (PDict [(''id'', PInt 12)] # [])"
    by (simp add: resolve_team_id_def warmed_def warm_teams_def team_cache_key_def Let_def new_client_def
        ascii_upper_def upper_char_def ascii_lower_def lower_char_def
        make_request_def clean_params_def team_query_def unwrap_data_def dget_def
        generate_cache_key_def sample_lib_def sample_dumps_def ascii_strip_def is_space_def
        get_cached_data_def is_cache_valid_def upstream_const_def
        max_attempts_def eval_nat_numeral cache_data_def)
  have h3: "is_int (dget [(''id'', PInt 12)] ''id'')"
    by (simp add: dget_def)
  have a: "team_id_cache (snd (resolve_team_id sample_lib (upstream_const (Http 200 (Some (PList [PDict [(''id'', PInt 12)]])) [])) ''Bills'' None None ''NFL'' new_client)) (team_cache_key sample_lib (str_strip sample_lib ''Bills'') None None ''NFL'') = Some (PInt 12)"
    by (simp add: sample_first_lookup kb)
  have t: "truthy (teams_cache (snd (resolve_team_id sample_lib (upstream_const (Http 200 (Some (PList [PDict [(''id'', PInt 12)]])) [])) ''Bills'' None None ''NFL'' new_client)))"
    by (simp add: sample_first_lookup)
  have b: "fst (resolve_team_id sample_lib (upstream_const (Http 200 (Some (PList [])) [])) ''Zebras'' None None ''NFL'' (new_client\<lparr>teams_cache := PList [PDict [(''id'', PInt 12)]]\<rparr>)) = Inr PNone"
    by (simp add: resolve_team_id_def warmed_def warm_teams_def team_cache_key_def Let_def new_client_def
        ascii_upper_def upper_char_def ascii_lower_def lower_char_def
        make_request_def clean_params_def team_query_def unwrap_data_def dget_def
        generate_cache_key_def sample_lib_def sample_dumps_def ascii_strip_def is_space_def
        get_cached_data_def is_cache_valid_def upstream_const_def
        max_attempts_def eval_nat_numeral cache_data_def)
  have z: "team_id_cache (new_client\<lparr>teams_cache := PList [PDict [(''id'', PInt 12)]]\<rparr>) (team_cache_key sample_lib (str_strip sample_lib ''Zebras'') None None ''NFL'') = None"
    by (simp add: new_client_def)
  have m: "\<not> truthy (fst (get_cached_data (warmed sample_lib (upstream_const (Http 200 (Some (PList [])) [])) ''NFL'' (new_client\<lparr>teams_cache := PList [PDict [(''id'', PInt 12)]]\<rparr>))
               (generate_cache_key sample_lib ''/teams'' (clean_params (team_query (str_strip sample_lib ''Zebras'') None None ''NFL'')))))"
    by (simp add: warmed_def get_cached_data_def is_cache_valid_def new_client_def)
  note T1 = resolve_team_id_caches_success_only
        [where lib = sample_lib and nt = "upstream_const (Http 200 (Some (PList [PDict [(''id'', PInt 12)]])) [])" and name = "''Bills''" and dn = None and ab = None
           and league = "''NFL''" and c = new_client and team = "[(''id'', PInt 12)]" and rest = "[]"
           and known = "PInt 12" and e = TypeError]
  note T2 = resolve_team_id_caches_success_only
        [where lib = sample_lib and nt = "upstream_const (Http 200 (Some (PList [PDict [(''id'', PInt 12)]])) [])" and name = "''Bills''" and dn = None and ab = None
           and league = "''NFL''" and c = "snd (resolve_team_id sample_lib (upstream_const (Http 200 (Some (PList [PDict [(''id'', PInt 12)]])) [])) ''Bills'' None None ''NFL'' new_client)" and team = "[(''id'', PInt 12)]" and rest = "[]"
           and known = "PInt 12" and e = TypeError]
  note T3 = resolve_team_id_caches_success_only
        [where lib = sample_lib and nt = "upstream_const (Http 200 (Some (PList [])) [])" and name = "''Zebras''" and dn = None and ab = None
           and league = "''NFL''" and c = "new_client\<lparr>teams_cache := PList [PDict [(''id'', PInt 12)]]\<rparr>" and team = "[(''id'', PInt 12)]" and rest = "[]"
           and known = "PInt 12" and e = TypeError]
  have c1: "fst (resolve_team_id sample_lib (upstream_const (Http 200 (Some (PList [PDict [(''id'', PInt 12)]])) [])) ''Bills'' None None ''NFL'' new_client) = Inr (dget [(''id'', PInt 12)] ''id'')
      \<and> team_id_cache (snd (resolve_team_id sample_lib (upstream_const (Http 200 (Some (PList [PDict [(''id'', PInt 12)]])) [])) ''Bills'' None None ''NFL'' new_client)) = (team_id_cache new_client)((team_cache_key sample_lib (str_strip sample_lib ''Bills'') None None ''NFL'') \<mapsto> dget [(''id'', PInt 12)] ''id'')"
    using T1 h1 h2 h3 by blast
  have c2: "resolve_team_id sample_lib (upstream_const (Http 200 (Some (PList [PDict [(''id'', PInt 12)]])) [])) ''Bills'' None None ''NFL'' (snd (resolve_team_id sample_lib (upstream_const (Http 200 (Some (PList [PDict [(''id'', PInt 12)]])) [])) ''Bills'' None None ''NFL'' new_client))
       = (Inr (PInt 12), warmed sample_lib (upstream_const (Http 200 (Some (PList [PDict [(''id'', PInt 12)]])) [])) ''NFL'' (snd (resolve_team_id sample_lib (upstream_const (Http 200 (Some (PList [PDict [(''id'', PInt 12)]])) [])) ''Bills'' None None ''NFL'' new_client)))"
    using T2 a by blast
  have c3: "warmed sample_lib (upstream_const (Http 200 (Some (PList [PDict [(''id'', PInt 12)]])) [])) ''NFL'' (snd (resolve_team_id sample_lib (upstream_const (Http 200 (Some (PList [PDict [(''id'', PInt 12)]])) [])) ''Bills'' None None ''NFL'' new_client)) = snd (resolve_team_id sample_lib (upstream_const (Http 200 (Some (PList [PDict [(''id'', PInt 12)]])) [])) ''Bills'' None None ''NFL'' new_client)"
    using T2 t by blast
  have c4: "team_id_cache (snd (resolve_team_id sample_lib (upstream_const (Http 200 (Some (PList [])) [])) ''Zebras'' None None ''NFL'' (new_client\<lparr>teams_cache := PList [PDict [(''id'', PInt 12)]]\<rparr>))) = team_id_cache (new_client\<lparr>teams_cache := PList [PDict [(''id'', PInt 12)]]\<rparr>)"
    using T3 b by blast
  have c5: "\<exists>more. sent (snd (resolve_team_id sample_lib (upstream_const (Http 200 (Some (PList [])) [])) ''Zebras'' None None ''NFL'' (new_client\<lparr>teams_cache := PList [PDict [(''id'', PInt 12)]]\<rparr>)))
         = sent (warmed sample_lib (upstream_const (Http 200 (Some (PList [])) [])) ''NFL'' (new_client\<lparr>teams_cache := PList [PDict [(''id'', PInt 12)]]\<rparr>)) @ (''/teams'', clean_params (team_query (str_strip sample_lib ''Zebras'') None None ''NFL'')) # more"
    using T3 z m by blast
  have e1: "team_id_cache (snd (resolve_team_id sample_lib (upstream_const (Http 200 (Some (PList [PDict [(''id'', PInt 12)]])) [])) ''Bills'' None None ''NFL'' new_client)) = [''NFL|bills'' \<mapsto> PInt 12]"
    using c1 by (simp add: kb dget_def new_client_def)
  have e0: "fst (resolve_team_id sample_lib (upstream_const (Http 200 (Some (PList [PDict [(''id'', PInt 12)]])) [])) ''Bills'' None None ''NFL'' new_client) = Inr (PInt 12)"
    using c1 by (simp add: dget_def)
  show ?thesis
    using h1 h2 h3 e0 e1 a t c2 c3 b c4 z m c5
    by (intro conjI) simp_all
qed

text \<open>
  The claim as stated fails: with the upstream answering the team query by an empty
  list, a first lookup of a name fails, and an immediate second lookup of the same name
  (the clock has not advanced) sends the same team query upstream a second time.
\<close>

theorem resolve_team_id_failure_requeried:
  "fst (resolve_team_id sample_lib (upstream_const (Http 200 (Some (PList [])) [])) ''Zebras'' None None ''NFL'' (new_client\<lparr>teams_cache := PList [PDict [(''id'', PInt 12)]]\<rparr>)) = Inr PNone
   \<and> sent (snd (resolve_team_id sample_lib (upstream_const (Http 200 (Some (PList [])) [])) ''Zebras'' None None ''NFL'' (new_client\<lparr>teams_cache := PList [PDict [(''id'', PInt 12)]]\<rparr>))) = [(''/teams'', [(''name'', PStr ''Zebras''), (''league'', PStr ''NFL'')])]
   \<and> clock (snd (resolve_team_id sample_lib (upstream_const (Http 200 (Some (PList [])) [])) ''Zebras'' None None ''NFL'' (new_client\<lparr>teams_cache := PList [PDict [(''id'', PInt 12)]]\<rparr>))) = 0
   \<and> sent (snd (resolve_team_id sample_lib (upstream_const (Http 200 (Some (PList [])) [])) ''Zebras'' None None ''NFL'' (snd (resolve_team_id sample_lib (upstream_const (Http 200 (Some (PList [])) [])) ''Zebras'' None None ''NFL'' (new_client\<lparr>teams_cache := PList [PDict [(''id'', PInt 12)]]\<rparr>)))))
       = [(''/teams'', [(''name'', PStr ''Zebras''), (''league'', PStr ''NFL'')]),
          (''/teams'', [(''name'', PStr ''Zebras''), (''league'', PStr ''NFL'')])]"
  by (simp add: resolve_team_id_def warmed_def warm_teams_def team_cache_key_def Let_def new_client_def
        ascii_upper_def upper_char_def ascii_lower_def lower_char_def
        make_request_def clean_params_def team_query_def unwrap_data_def dget_def
        generate_cache_key_def sample_lib_def sample_dumps_def ascii_strip_def is_space_def
        get_cached_data_def is_cache_valid_def upstream_const_def
        max_attempts_def eval_nat_numeral cache_data_def minutes_def)

subsection \<open>Merging statistics: facts about \<^verbatim>\<open>merge_preserve\<close>\<close>







lemma merge_step_value:
  "merge_step lib target (k, v) = target(k := merge_value lib k (target k) v)"
  by (rule ext) (auto simp: merge_step_def merge_value_def split: option.splits)

lemma merge_value_idem: "merge_value lib k (merge_value lib k x v) v = merge_value lib k x v"
  by (auto simp: merge_value_def merge_step_def int_or_zero_def split: option.splits)

lemma merge_fold_lookup:
  assumes "distinct (map fst kvs)"
  shows "foldl (merge_step lib) target kvs k
       = (case map_of kvs k of None \<Rightarrow> target k | Some v \<Rightarrow> merge_value lib k (target k) v)"
  using assms
proof (induction kvs arbitrary: target)
  case Nil
  show ?case by simp
next
  case (Cons kv kvs)
  obtain k' v' where kv: "kv = (k', v')" by (cases kv)
  have d: "distinct (map fst kvs)" and nk: "k' \<notin> fst ` set kvs"
    using Cons.prems kv by auto
  have none: "map_of kvs k' = None"
    using nk by (simp add: map_of_eq_None_iff)
  define target1 where "target1 = target(k' := merge_value lib k' (target k') v')"
  have step: "merge_step lib target (k', v') = target1"
    by (simp add: merge_step_value target1_def)
  have ih: "foldl (merge_step lib) target1 kvs k
       = (case map_of kvs k of None \<Rightarrow> target1 k | Some v \<Rightarrow> merge_value lib k (target1 k) v)"
    by (rule Cons.IH [OF d])
  show ?case
  proof (cases "k = k'")
    case True
    have t1: "target1 k' = merge_value lib k' (target k') v'"
      by (simp add: target1_def)
    show ?thesis
      using True ih none by (simp add: kv step t1 split: option.splits)
  next
    case False
    then have t1: "target1 k = target k"
      by (simp add: target1_def)
    show ?thesis
      using False ih by (simp add: kv step t1 split: option.splits)
  qed
qed

lemma merge_fold_idem:
  assumes "distinct (map fst kvs)"
  shows "foldl (merge_step lib) (foldl (merge_step lib) target kvs) kvs = foldl (merge_step lib) target kvs"
proof (rule ext)
  fix k
  show "foldl (merge_step lib) (foldl (merge_step lib) target kvs) kvs k = foldl (merge_step lib) target kvs k"
    by (simp add: merge_fold_lookup [OF assms] merge_value_idem split: option.splits)
qed


lemma map_stats_single:
  "map_stats lib (PDict [(''statistics'', PList [it])]) out = map_item lib out it"
  by (simp add: map_stats_def dget_def py_or_def split: sum.splits)

lemma sample_yards_item:
  "item_name sample_lib (PDict [(''name'', PStr ''Rushing Yards''), (''value'', PInt 100)]) = Inr ''rushing yards''"
  by (simp add: item_name_def dget_def py_or_def sample_lib_def ascii_lower_def lower_char_def)

lemma sample_yards_number:
  "int_of_number (item_number sample_lib (dget [(''name'', PStr ''Rushing Yards''), (''value'', PInt 100)] ''value'')) = 100"
  by (simp add: item_number_def dget_def int_of_number_def trunc_def)

subsection \<open>Merging statistics: idempotence\<close>

text \<open>
  Claim C7, as the code has it. Merging by \<^verbatim>\<open>merge_preserve\<close> is idempotent: for every
  source dictionary (its keys are distinct, as those of a dictionary are) and every
  starting record, merging the same source twice yields exactly the record obtained by
  merging it once, and a source that is no dictionary changes nothing. \<^verbatim>\<open>map_stats\<close>
  is not idempotent: it adds the value of a yards item, and of a touchdowns item, to
  the integer the record already holds, at each application.
\<close>

theorem merge_preserve_idempotent:
  "(distinct (map fst kvs) \<longrightarrow>
      merge_preserve lib (merge_preserve lib target (PDict kvs)) (PDict kvs)
        = merge_preserve lib target (PDict kvs))
   \<and> (\<not> is_dict source \<longrightarrow> merge_preserve lib target source = target)
   \<and> (item_name lib it = Inr name \<and> contains ''yards'' name \<and> out ''yards'' = Some (PInt y) \<longrightarrow>
        map_stats lib (PDict [(''statistics'', PList [it])]) out
          = Inr (out(''yards'' \<mapsto>
                   PInt (y + int_of_number (item_number lib
                          (case it of PDict kvs \<Rightarrow> dget kvs ''value'' | _ \<Rightarrow> PNone))))))
   \<and> (item_name lib it = Inr name \<and> \<not> contains ''yards'' name \<and> \<not> contains ''completion'' name
        \<and> (contains ''touchdown'' name \<or> contains ''td'' name) \<and> out ''touchdowns'' = Some (PInt y) \<longrightarrow>
        map_stats lib (PDict [(''statistics'', PList [it])]) out
          = Inr (out(''touchdowns'' \<mapsto>
                   PInt (y + int_of_number (item_number lib
                          (case it of PDict kvs \<Rightarrow> dget kvs ''value'' | _ \<Rightarrow> PNone))))))"
proof (intro conjI impI)
  assume "distinct (map fst kvs)"
  then show "merge_preserve lib (merge_preserve lib target (PDict kvs)) (PDict kvs)
        = merge_preserve lib target (PDict kvs)"
    by (simp add: merge_preserve_def merge_fold_idem)
next
  assume "\<not> is_dict source"
  then show "merge_preserve lib target source = target"
    by (cases source) (simp_all add: merge_preserve_def)
next
  assume "item_name lib it = Inr name \<and> contains ''yards'' name \<and> out ''yards'' = Some (PInt y)"
  then show "map_stats lib (PDict [(''statistics'', PList [it])]) out
          = Inr (out(''yards'' \<mapsto>
                   PInt (y + int_of_number (item_number lib
                          (case it of PDict kvs \<Rightarrow> dget kvs ''value'' | _ \<Rightarrow> PNone)))))"
    by (simp add: map_stats_single map_item_def Let_def)
next
  assume "item_name lib it = Inr name \<and> \<not> contains ''yards'' name \<and> \<not> contains ''completion'' name
        \<and> (contains ''touchdown'' name \<or> contains ''td'' name) \<and> out ''touchdowns'' = Some (PInt y)"
  then show "map_stats lib (PDict [(''statistics'', PList [it])]) out
          = Inr (out(''touchdowns'' \<mapsto>
                   PInt (y + int_of_number (item_number lib
                          (case it of PDict kvs \<Rightarrow> dget kvs ''value'' | _ \<Rightarrow> PNone)))))"
    by (auto simp add: map_stats_single map_item_def Let_def)
qed

theorem merge_preserve_idempotent_witness:
  "distinct (map fst [(''touchdowns'', PInt 3), (''yards'', PInt 0)])
   \<and> \<not> is_dict (PList [])
   \<and> merge_preserve sample_lib [''touchdowns'' \<mapsto> PInt 2, ''yards'' \<mapsto> PInt 150] (PList []) = [''touchdowns'' \<mapsto> PInt 2, ''yards'' \<mapsto> PInt 150]
   \<and> merge_preserve sample_lib (merge_preserve sample_lib [''touchdowns'' \<mapsto> PInt 2, ''yards'' \<mapsto> PInt 150] (PDict [(''touchdowns'', PInt 3), (''yards'', PInt 0)])) (PDict [(''touchdowns'', PInt 3), (''yards'', PInt 0)])
       = merge_preserve sample_lib [''touchdowns'' \<mapsto> PInt 2, ''yards'' \<mapsto> PInt 150] (PDict [(''touchdowns'', PInt 3), (''yards'', PInt 0)])
   \<and> merge_preserve sample_lib [''touchdowns'' \<mapsto> PInt 2, ''yards'' \<mapsto> PInt 150] (PDict [(''touchdowns'', PInt 3), (''yards'', PInt 0)]) ''touchdowns'' = Some (PInt 3)
   \<and> merge_preserve sample_lib [''touchdowns'' \<mapsto> PInt 2, ''yards'' \<mapsto> PInt 150] (PDict [(''touchdowns'', PInt 3), (''yards'', PInt 0)]) ''yards'' = Some (PInt 150)
   \<and> item_name sample_lib (PDict [(''name'', PStr ''Rushing Yards''), (''value'', PInt 100)]) = Inr ''rushing yards''
   \<and> contains ''yards'' ''rushing yards''
   \<and> [''yards'' \<mapsto> PInt 50] ''yards'' = Some (PInt 50)
   \<and> map_stats sample_lib (PDict [(''statistics'', PList [(PDict [(''name'', PStr ''Rushing Yards''), (''value'', PInt 100)])])]) [''yards'' \<mapsto> PInt 50]
       = Inr [''yards'' \<mapsto> PInt 150]
   \<and> item_name sample_lib (PDict [(''name'', PStr ''Passing Touchdowns''), (''value'', PInt 2)]) = Inr ''passing touchdowns''
   \<and> \<not> contains ''yards'' ''passing touchdowns'' \<and> \<not> contains ''completion'' ''passing touchdowns''
   \<and> contains ''touchdown'' ''passing touchdowns''
   \<and> [''touchdowns'' \<mapsto> PInt 1] ''touchdowns'' = Some (PInt 1)
   \<and> map_stats sample_lib (PDict [(''statistics'', PList [(PDict [(''name'', PStr ''Passing Touchdowns''), (''value'', PInt 2)])])]) [''touchdowns'' \<mapsto> PInt 1]
       = Inr [''touchdowns'' \<mapsto> PInt 3]"
proof -
  have d: "distinct (map fst [(''touchdowns'', PInt 3), (''yards'', PInt 0)])"
    by simp
  have nd: "\<not> is_dict (PList [])"
    by simp
  have n1: "item_name sample_lib (PDict [(''name'', PStr ''Rushing Yards''), (''value'', PInt 100)]) = Inr ''rushing yards''"
    by (rule sample_yards_item)
  have n2: "item_name sample_lib (PDict [(''name'', PStr ''Passing Touchdowns''), (''value'', PInt 2)]) = Inr ''passing touchdowns''"
    by (simp add: item_name_def dget_def py_or_def sample_lib_def ascii_lower_def lower_char_def)
  have v1: "int_of_number (item_number sample_lib (dget [(''name'', PStr ''Rushing Yards''), (''value'', PInt 100)] ''value'')) = 100"
    by (rule sample_yards_number)
  have v2: "int_of_number (item_number sample_lib (dget [(''name'', PStr ''Passing Touchdowns''), (''value'', PInt 2)] ''value'')) = 2"
    by (simp add: item_number_def dget_def int_of_number_def trunc_def)
  have m1: "merge_preserve sample_lib [''touchdowns'' \<mapsto> PInt 2, ''yards'' \<mapsto> PInt 150] (PDict [(''touchdowns'', PInt 3), (''yards'', PInt 0)]) ''touchdowns'' = Some (PInt 3)"
    by (simp add: merge_preserve_def merge_step_def int_or_zero_def)
  have m2: "merge_preserve sample_lib [''touchdowns'' \<mapsto> PInt 2, ''yards'' \<mapsto> PInt 150] (PDict [(''touchdowns'', PInt 3), (''yards'', PInt 0)]) ''yards'' = Some (PInt 150)"
    by (simp add: merge_preserve_def merge_step_def int_or_zero_def)
  note T1 = merge_preserve_idempotent
      [where lib = sample_lib and kvs = "[(''touchdowns'', PInt 3), (''yards'', PInt 0)]" and source = "PList []" and target = "[''touchdowns'' \<mapsto> PInt 2, ''yards'' \<mapsto> PInt 150]"
         and it = "PDict [(''name'', PStr ''Rushing Yards''), (''value'', PInt 100)]" and name = "''rushing yards''" and out = "[''yards'' \<mapsto> PInt 50]" and y = 50]
  note T2 = merge_preserve_idempotent
      [where lib = sample_lib and kvs = "[(''touchdowns'', PInt 3), (''yards'', PInt 0)]" and source = "PList []" and target = "[''touchdowns'' \<mapsto> PInt 2, ''yards'' \<mapsto> PInt 150]"
         and it = "PDict [(''name'', PStr ''Passing Touchdowns''), (''value'', PInt 2)]" and name = "''passing touchdowns''" and out = "[''touchdowns'' \<mapsto> PInt 1]" and y = 1]
  have c1: "merge_preserve sample_lib (merge_preserve sample_lib [''touchdowns'' \<mapsto> PInt 2, ''yards'' \<mapsto> PInt 150] (PDict [(''touchdowns'', PInt 3), (''yards'', PInt 0)])) (PDict [(''touchdowns'', PInt 3), (''yards'', PInt 0)])
       = merge_preserve sample_lib [''touchdowns'' \<mapsto> PInt 2, ''yards'' \<mapsto> PInt 150] (PDict [(''touchdowns'', PInt 3), (''yards'', PInt 0)])"
    using T1 d by blast
  have c0: "merge_preserve sample_lib [''touchdowns'' \<mapsto> PInt 2, ''yards'' \<mapsto> PInt 150] (PList []) = [''touchdowns'' \<mapsto> PInt 2, ''yards'' \<mapsto> PInt 150]"
    using T1 nd by blast
  have c2: "map_stats sample_lib (PDict [(''statistics'', PList [(PDict [(''name'', PStr ''Rushing Yards''), (''value'', PInt 100)])])]) [''yards'' \<mapsto> PInt 50]
       = Inr [''yards'' \<mapsto> PInt 150]"
    using T1 n1 by (simp add: v1)
  have c3: "map_stats sample_lib (PDict [(''statistics'', PList [(PDict [(''name'', PStr ''Passing Touchdowns''), (''value'', PInt 2)])])]) [''touchdowns'' \<mapsto> PInt 1]
       = Inr [''touchdowns'' \<mapsto> PInt 3]"
    using T2 n2 by (simp add: v2)
  show ?thesis
    using d nd c0 c1 m1 m2 n1 c2 n2 c3 by (intro conjI) simp_all
qed

text \<open>
  The claim as stated fails for \<^verbatim>\<open>map_stats\<close>: merging one entry with 100 rushing yards
  into the empty record gives 100 yards, and merging the same entry a second time gives
  200.
\<close>

theorem map_stats_not_idempotent:
  "field_of (map_stats sample_lib
        (PDict [(''statistics'', PList [PDict [(''name'', PStr ''Rushing Yards''), (''value'', PInt 100)]])])
        empty_stats) ''yards'' = Some (PInt 100)
   \<and> field_of (then_step
        (map_stats sample_lib
          (PDict [(''statistics'', PList [PDict [(''name'', PStr ''Rushing Yards''), (''value'', PInt 100)]])])
          empty_stats)
        (map_stats sample_lib
          (PDict [(''statistics'', PList [PDict [(''name'', PStr ''Rushing Yards''), (''value'', PInt 100)]])])))
        ''yards'' = Some (PInt 200)"
  by (simp add: map_stats_single map_item_def sample_yards_item sample_yards_number Let_def
        empty_stats_def field_of_def then_step_def)



subsection \<open>Merging statistics: facts about \<^verbatim>\<open>update_from_team_block\<close>\<close>












subsection \<open>Merging statistics: zero candidates\<close>




subsection \<open>Merging statistics: sequences of merges and the touchdowns enrichment\<close>









end
